theory Spec2Isabelle
  imports Complex_Main "HOL-Library.Sublist"
begin

section \<open>JavaScript strings\<close>

text \<open>
  A JavaScript string is a sequence of UTF-16 code units. Every character the sources
  compare against lies in the Basic Multilingual Plane, so one code unit is one
  character. ASCII literals are written through \<open>asc\<close>; CJK literals are given by
  their code units.
\<close>

type_synonym jstring = "nat list"

definition asc :: "string \<Rightarrow> jstring" where
  "asc s = map of_char s"

text \<open>White space as matched by \<open>\s\<close> and removed by \<open>String.prototype.trim\<close>.\<close>

definition isSpace :: "nat \<Rightarrow> bool" where
  "isSpace c = (c \<in> {9, 10, 11, 12, 13, 32, 160, 0x1680, 0x2028, 0x2029, 0x202F, 0x205F,
                      0x3000, 0xFEFF} \<or> (0x2000 \<le> c \<and> c \<le> 0x200A))"

text \<open>\<open>\d\<close>: the ASCII digits.\<close>

definition isDigit :: "nat \<Rightarrow> bool" where
  "isDigit c = (48 \<le> c \<and> c \<le> 57)"

definition trimStart :: "jstring \<Rightarrow> jstring" where
  "trimStart s = dropWhile isSpace s"

definition trimEnd :: "jstring \<Rightarrow> jstring" where
  "trimEnd s = rev (dropWhile isSpace (rev s))"

definition trim :: "jstring \<Rightarrow> jstring" where
  "trim s = trimEnd (trimStart s)"

text \<open>The value of an option, with a default where the source has excluded \<open>None\<close>.\<close>

definition valueOr :: "'a \<Rightarrow> 'a option \<Rightarrow> 'a" where
  "valueOr d x = (case x of None \<Rightarrow> d | Some v \<Rightarrow> v)"

text \<open>\<open>s.includes(sub)\<close> (the name is reserved in Isabelle): \<open>sub\<close> occurs in \<open>s\<close> as a contiguous run.\<close>

fun str_includes :: "jstring \<Rightarrow> jstring \<Rightarrow> bool" where
  "str_includes [] sub = (sub = [])"
| "str_includes (c # cs) sub = (prefix sub (c # cs) \<or> str_includes cs sub)"

text \<open>\<open>s.split(sep)\<close> for a separator of one code unit (here, any unit satisfying \<open>p\<close>).\<close>

fun splitOn :: "(nat \<Rightarrow> bool) \<Rightarrow> jstring \<Rightarrow> jstring list" where
  "splitOn p [] = [[]]"
| "splitOn p (c # cs) =
     (if p c then [] # splitOn p cs
      else (case splitOn p cs of [] \<Rightarrow> [[c]] | w # ws \<Rightarrow> (c # w) # ws))"

text \<open>
  The value of a run of decimal digits, as \<open>parseInt(ds, 10)\<close> reads it: exact, as the
  double is below \<open>2^53\<close>.
\<close>

definition digitsValue :: "jstring \<Rightarrow> nat" where
  "digitsValue ds = foldl (\<lambda>n c. 10 * n + (c - 48)) 0 ds"

text \<open>
  Case mapping acts on the ASCII letters; the other code units compared against in the
  sources (CJK ideographs, digits, punctuation) have no case.
\<close>

definition toLowerCase :: "jstring \<Rightarrow> jstring" where
  "toLowerCase s = map (\<lambda>c. if 65 \<le> c \<and> c \<le> 90 then c + 32 else c) s"

definition toUpperCase :: "jstring \<Rightarrow> jstring" where
  "toUpperCase s = map (\<lambda>c. if 97 \<le> c \<and> c \<le> 122 then c - 32 else c) s"

section \<open>The PDF text-layout parser (services/pdfParser.ts)\<close>

record offender =
  off_id :: nat
  off_name :: jstring
  off_violationDate :: jstring
  off_violationArticle :: jstring
  off_violationLocation :: jstring
  off_violationDescription :: jstring
  off_hasPhoto :: bool

text \<open>
  \<open>line.match(/^\s*(\d+)\s+/)\<close>: the digits of group 1 and the text after the whole
  match. White space and digits are disjoint, so the greedy match never backtracks.
\<close>

definition newRecordMatch :: "jstring \<Rightarrow> (jstring \<times> jstring) option" where
  "newRecordMatch line =
     (let s1 = dropWhile isSpace line;
          ds = takeWhile isDigit s1;
          s2 = dropWhile isDigit s1
      in if ds \<noteq> [] \<and> takeWhile isSpace s2 \<noteq> [] then Some (ds, dropWhile isSpace s2)
         else None)"

text \<open>
  \<open>\d{lo,hi}\<close> tried greedily: the candidate lengths, longest first, that the digits at
  the head of \<open>s\<close> allow.
\<close>

definition fits :: "nat list \<Rightarrow> jstring \<Rightarrow> nat list" where
  "fits ns s = filter (\<lambda>n. n \<le> length (takeWhile isDigit s)) ns"

text \<open>\<open>\d{2,3}\/\d{1,2}\/\d{1,2}\<close> matched at the head of \<open>s\<close>, with backtracking.\<close>

definition dateAt :: "jstring \<Rightarrow> jstring option" where
  "dateAt s =
     (case [take (n1 + 1 + n2 + 1 + n3) s.
              n1 \<leftarrow> fits [3, 2] s,
              take 1 (drop n1 s) = [47],
              n2 \<leftarrow> fits [2, 1] (drop (n1 + 1) s),
              take 1 (drop (n1 + 1 + n2) s) = [47],
              n3 \<leftarrow> fits [2, 1] (drop (n1 + 1 + n2 + 1) s)]
      of [] \<Rightarrow> None | m # _ \<Rightarrow> Some m)"

text \<open>
  \<open>remainingText.match(/^([^\d]+?)\s*\d{2,3}\/\d{1,2}\/\d{1,2}/)\<close>, group 1. The
  non-digits before the date form one run; the lazy group takes the shortest non-empty
  prefix of it that leaves only white space before the date.
\<close>

definition nameMatch :: "jstring \<Rightarrow> jstring option" where
  "nameMatch t =
     (let run = takeWhile (\<lambda>c. \<not> isDigit c) t;
          rest = dropWhile (\<lambda>c. \<not> isDigit c) t
      in if run \<noteq> [] \<and> dateAt rest \<noteq> None
         then Some (take (max 1 (length (trimEnd run))) run)
         else None)"

text \<open>\<open>remainingText.match(/(\d{2,3}\/\d{1,2}\/\d{1,2})/)\<close>: the leftmost match.\<close>

fun dateMatch :: "jstring \<Rightarrow> jstring option" where
  "dateMatch [] = None"
| "dateMatch (c # cs) =
     (case dateAt (c # cs) of Some m \<Rightarrow> Some m | None \<Rightarrow> dateMatch cs)"

definition zhaopian :: jstring where "zhaopian = [0x7167, 0x7247]"
definition xiangpian :: jstring where "xiangpian = [0x76F8, 0x7247]"
definition jiu :: jstring where "jiu = [0x9152]"
definition jiujing :: jstring where "jiujing = [0x9152, 0x7CBE]"
definition jiashi :: jstring where "jiashi = [0x99D5, 0x99DB]"

text \<open>Lines 69 to 97: the record started by a line that opens with a sequence number.\<close>

definition startOffender :: "jstring \<Rightarrow> jstring \<Rightarrow> jstring \<Rightarrow> offender" where
  "startOffender line ds after =
     (let remainingText = trim after
      in \<lparr> off_id = digitsValue ds,
           off_name = (case nameMatch remainingText of Some g \<Rightarrow> trim g | None \<Rightarrow> []),
           off_violationDate = (case dateMatch remainingText of Some d \<Rightarrow> d | None \<Rightarrow> []),
           off_violationArticle = [],
           off_violationLocation = [],
           off_violationDescription = [],
           off_hasPhoto = (str_includes line zhaopian \<or> str_includes line xiangpian) \<rparr>)"

text \<open>Lines 99 to 106: a line that opens no record is filed under at most one field.\<close>

definition classifyLine :: "jstring \<Rightarrow> offender \<Rightarrow> offender" where
  "classifyLine line cur =
     (if str_includes line [0x7B2C] \<and> str_includes line [0x689D]
        then cur\<lparr>off_violationArticle := trim line\<rparr>
      else if str_includes line [0x5340] \<or> str_includes line [0x8DEF] \<or> str_includes line [0x8857]
              \<or> str_includes line [0x6BB5]
        then cur\<lparr>off_violationLocation := trim line\<rparr>
      else if str_includes line jiu \<or> str_includes line jiujing \<or> str_includes line jiashi
        then cur\<lparr>off_violationDescription := trim line\<rparr>
      else cur)"

text \<open>The loop of lines 58 to 108 and the final push of lines 111 to 113.\<close>

fun parseLines :: "jstring list \<Rightarrow> offender list \<Rightarrow> offender option \<Rightarrow> offender list" where
  "parseLines [] offenders currentOffender =
     (case currentOffender of Some cur \<Rightarrow> offenders @ [cur] | None \<Rightarrow> offenders)"
| "parseLines (line # rest) offenders currentOffender =
     (case newRecordMatch line of
        Some (ds, after) \<Rightarrow>
          parseLines rest
            (case currentOffender of Some cur \<Rightarrow> offenders @ [cur] | None \<Rightarrow> offenders)
            (Some (startOffender line ds after))
      | None \<Rightarrow>
          (case currentOffender of
             Some cur \<Rightarrow> parseLines rest offenders (Some (classifyLine line cur))
           | None \<Rightarrow> parseLines rest offenders None))"

definition parseOffenderData :: "jstring \<Rightarrow> offender list" where
  "parseOffenderData text =
     parseLines (filter (\<lambda>line. trim line \<noteq> []) (splitOn (\<lambda>c. c = 10) text)) [] None"


section \<open>Dates\<close>

text \<open>
  A \<open>Date\<close> holds a time value, milliseconds since 1970-01-01T00:00Z, or is invalid
  (time value NaN). Day numbers and calendar dates are converted as ECMA-262 does
  (\<open>MakeDay\<close>, \<open>YearFromTime\<close>, \<open>MonthFromTime\<close>, \<open>DateFromTime\<close>) in the proleptic
  Gregorian calendar.
\<close>

datatype jsdate = InvalidDate | DateMs int

definition msPerDay :: int where
  "msPerDay = 86400000"

text \<open>The day number of the calendar date \<open>y\<close>-\<open>m\<close>-\<open>d\<close>, for a month \<open>m\<close> from 1 to 12.\<close>

definition daysFromCivil :: "int \<Rightarrow> int \<Rightarrow> int \<Rightarrow> int" where
  "daysFromCivil y m d =
     (let y' = (if m \<le> 2 then y - 1 else y);
          era = y' div 400;
          yoe = y' mod 400;
          doy = (153 * (if m > 2 then m - 3 else m + 9) + 2) div 5 + d - 1;
          doe = yoe * 365 + yoe div 4 - yoe div 100 + doy
      in era * 146097 + doe - 719468)"

text \<open>Year, month (1 to 12) and day of the month of a day number.\<close>

definition civilFromDays :: "int \<Rightarrow> int \<times> int \<times> int" where
  "civilFromDays z =
     (let z' = z + 719468;
          era = z' div 146097;
          doe = z' mod 146097;
          yoe = (doe - doe div 1460 + doe div 36524 - doe div 146096) div 365;
          doy = doe - (365 * yoe + yoe div 4 - yoe div 100);
          mp = (5 * doy + 2) div 153;
          d = doy - (153 * mp + 2) div 5 + 1;
          m = (if mp < 10 then mp + 3 else mp - 9)
      in (yoe + era * 400 + (if m \<le> 2 then 1 else 0), m, d))"

text \<open>\<open>MakeDay(year, month, date)\<close> with a month index counted from 0, of any size.\<close>

definition makeDay :: "int \<Rightarrow> int \<Rightarrow> int \<Rightarrow> int" where
  "makeDay year month date = daysFromCivil (year + month div 12) (month mod 12 + 1) 1 + date - 1"

definition timeClip :: "int \<Rightarrow> jsdate" where
  "timeClip t = (if \<bar>t\<bar> \<le> 8640000000000000 then DateMs t else InvalidDate)"

text \<open>
  \<open>new Date(year, monthIndex, day)\<close>: local midnight of that day, for a local zone
  \<open>tza\<close> milliseconds ahead of UTC. A number is \<open>None\<close> when it is NaN; a year from 0 to
  99 counts from 1900.
\<close>

definition newDateLocal :: "int \<Rightarrow> int option \<Rightarrow> int option \<Rightarrow> int option \<Rightarrow> jsdate" where
  "newDateLocal tza y m d =
     (case (y, m, d) of
        (Some y, Some m, Some d) \<Rightarrow>
          timeClip (makeDay (if 0 \<le> y \<and> y \<le> 99 then 1900 + y else y) m d * msPerDay - tza)
      | _ \<Rightarrow> InvalidDate)"

text \<open>What \<open>getFullYear\<close>, \<open>getMonth() + 1\<close> and \<open>getDate\<close> read in the local zone.\<close>

definition localDateOf :: "int \<Rightarrow> jsdate \<Rightarrow> (int \<times> int \<times> int) option" where
  "localDateOf tza d =
     (case d of InvalidDate \<Rightarrow> None | DateMs t \<Rightarrow> Some (civilFromDays ((t + tza) div msPerDay)))"

text \<open>Decimal digits: of a number, and of a number in a field of fixed width.\<close>

fun decimal :: "nat \<Rightarrow> jstring" where
  "decimal n = (if n < 10 then [48 + n] else decimal (n div 10) @ [48 + n mod 10])"

declare decimal.simps [simp del]

definition numberToString :: "int \<Rightarrow> jstring" where
  "numberToString n = (if n < 0 then 45 # decimal (nat (- n)) else decimal (nat n))"

fun padded :: "nat \<Rightarrow> nat \<Rightarrow> jstring" where
  "padded 0 n = []"
| "padded (Suc w) n = padded w (n div 10) @ [48 + n mod 10]"

text \<open>
  \<open>toISOString\<close> of a valid time value: \<open>YYYY-MM-DDTHH:mm:ss.sssZ\<close>, the year with a
  sign and six digits outside 0 to 9999.
\<close>

definition isoYear :: "int \<Rightarrow> jstring" where
  "isoYear y =
     (if 0 \<le> y \<and> y \<le> 9999 then padded 4 (nat y)
      else (if y < 0 then 45 else 43) # padded 6 (nat \<bar>y\<bar>))"

definition toISOString :: "int \<Rightarrow> jstring" where
  "toISOString t =
     (let (y, m, d) = civilFromDays (t div msPerDay);
          ms = t mod msPerDay
      in isoYear y @ [45] @ padded 2 (nat m) @ [45] @ padded 2 (nat d) @ [84]
         @ padded 2 (nat (ms div 3600000)) @ [58]
         @ padded 2 (nat (ms div 60000 mod 60)) @ [58]
         @ padded 2 (nat (ms div 1000 mod 60)) @ [46]
         @ padded 3 (nat (ms mod 1000)) @ [90])"

text \<open>\<open>date.toISOString().split('T')[0]\<close>\<close>

definition isoDate :: "int \<Rightarrow> jstring" where
  "isoDate t = takeWhile (\<lambda>c. c \<noteq> 84) (toISOString t)"

text \<open>
  \<open>parseInt(s)\<close> without a radix: leading white space, a sign, then the longest run of
  digits, hexadecimal after \<open>0x\<close>; \<open>None\<close> is NaN. The value is exact, as the double is
  below \<open>2^53\<close>.
\<close>

definition hexDigitValue :: "nat \<Rightarrow> nat option" where
  "hexDigitValue c =
     (if 48 \<le> c \<and> c \<le> 57 then Some (c - 48)
      else if 97 \<le> c \<and> c \<le> 102 then Some (c - 87)
      else if 65 \<le> c \<and> c \<le> 70 then Some (c - 55)
      else None)"

definition parseIntDigits :: "jstring \<Rightarrow> nat option" where
  "parseIntDigits s =
     (if take 2 s = [48, 120] \<or> take 2 s = [48, 88]
      then (let ds = takeWhile (\<lambda>c. hexDigitValue c \<noteq> None) (drop 2 s)
            in if ds = [] then None
               else Some (foldl (\<lambda>n c. 16 * n + valueOr 0 (hexDigitValue c)) 0 ds))
      else (let ds = takeWhile isDigit s
            in if ds = [] then None else Some (digitsValue ds)))"

definition parseInt :: "jstring \<Rightarrow> int option" where
  "parseInt s =
     (let s1 = trimStart s
      in case s1 of
           [] \<Rightarrow> None
         | c # cs \<Rightarrow>
             if c = 45 then map_option (\<lambda>n. - int n) (parseIntDigits cs)
             else if c = 43 then map_option int (parseIntDigits cs)
             else map_option int (parseIntDigits s1))"

text \<open>
  The integer part of \<open>Number(s)\<close>, as the \<open>Date\<close> constructor takes a string argument:
  an optional sign, then digits with at most one decimal point and at least one digit.
  The strings it is applied to are made of digits, \<open>/\<close>, \<open>-\<close> and \<open>.\<close> only (what the
  cleaning of \<open>parseDate\<close> leaves); any other content gives NaN here. The value is that
  of the exact decimal, which is the double's for the numerals of a date (below \<open>2^53\<close>,
  with a fraction that does not round up to the next integer).
\<close>

definition unsignedIntegerPart :: "jstring \<Rightarrow> int option" where
  "unsignedIntegerPart s =
     (let ip = takeWhile isDigit s; r = dropWhile isDigit s
      in if r = [] then (if ip = [] then None else Some (int (digitsValue ip)))
         else if hd r = 46 \<and> list_all isDigit (tl r) \<and> (ip \<noteq> [] \<or> tl r \<noteq> [])
           then Some (int (digitsValue ip))
         else None)"

definition toIntegerOfString :: "jstring \<Rightarrow> int option" where
  "toIntegerOfString s =
     (case trim s of
        [] \<Rightarrow> Some 0
      | c # cs \<Rightarrow>
          if c = 45 then map_option uminus (unsignedIntegerPart cs)
          else if c = 43 then unsignedIntegerPart cs
          else unsignedIntegerPart (c # cs))"

section \<open>JavaScript values and the host\<close>

text \<open>
  The values of properties: strings, null and undefined, as the interfaces
  \<open>OffenderData\<close> and \<open>RawOffenderRecord\<close> declare them.
\<close>

datatype jsval = JNull | JUndefined | JStr jstring

text \<open>
  An object with string keys, in insertion order; a later entry for a key does not occur,
  since updates replace in place.
\<close>

type_synonym jsobject = "(jstring \<times> jsval) list"

datatype jsdata = DString jstring | DObject jsobject | DArray "jsobject list" | DNull | DUndefined

datatype exn = Error jstring | TypeError jstring

text \<open>\<open>key in obj\<close> and \<open>obj[key]\<close>.\<close>

definition hasKey :: "jsobject \<Rightarrow> jstring \<Rightarrow> bool" where
  "hasKey obj k = (map_of obj k \<noteq> None)"

definition getProp :: "jsobject \<Rightarrow> jstring \<Rightarrow> jsval" where
  "getProp obj k = (case map_of obj k of None \<Rightarrow> JUndefined | Some v \<Rightarrow> v)"

text \<open>\<open>obj[key] = v\<close>: replaces the value of a key that is present, appends a new one.\<close>

fun setProp :: "('k \<times> 'v) list \<Rightarrow> 'k \<Rightarrow> 'v \<Rightarrow> ('k \<times> 'v) list" where
  "setProp [] k v = [(k, v)]"
| "setProp ((k', v') # kvs) k v = (if k' = k then (k, v) # kvs else (k', v') # setProp kvs k v)"

text \<open>The operand of \<open>||\<close> when it is truthy: a non-empty string.\<close>

definition truthyStr :: "jsval \<Rightarrow> jstring option" where
  "truthyStr v = (case v of JStr s \<Rightarrow> (if s = [] then None else Some s) | _ \<Rightarrow> None)"

text \<open>\<open>!s\<close> for a value that is a string or null.\<close>

definition falsy :: "jstring option \<Rightarrow> bool" where
  "falsy v = (v = None \<or> v = Some [])"

text \<open>
  What the host supplies: the parser behind \<open>new Date(string)\<close>, whose result for
  non-ISO strings ECMA-262 leaves to the implementation; the local time zone offset in
  milliseconds (one offset, as in a zone without daylight saving); \<open>JSON.stringify\<close>;
  and the two branches of the AI service that call the OpenAI backend (aiService.ts lines
  59 to 112 and 176 to 217).
\<close>

record host =
  dateParse :: "jstring \<Rightarrow> jsdate"
  localTZA :: int
  stringify :: "jsdata \<Rightarrow> jstring"
  liveStructured :: "jstring \<Rightarrow> exn + jsdata"
  liveImage :: "jstring \<Rightarrow> exn + jsobject list"

text \<open>
  The clock and the random generator are read in program order: the \<open>n\<close>-th read of the
  run sees \<open>clock n\<close> (a time value) or \<open>random n\<close> (a number from 0 up to, not
  including, 1).
\<close>

record io =
  ticks :: nat
  clock :: "nat \<Rightarrow> int"
  random :: "nat \<Rightarrow> rat"

definition newDateNow :: "io \<Rightarrow> int \<times> io" where
  "newDateNow w = (clock w (ticks w), w\<lparr>ticks := Suc (ticks w)\<rparr>)"

definition mathRandom :: "io \<Rightarrow> rat \<times> io" where
  "mathRandom w = (random w (ticks w), w\<lparr>ticks := Suc (ticks w)\<rparr>)"

section \<open>The import tool's date conversion (tools/importDataToDb.ts)\<close>

text \<open>
  \<open>parseRocDate\<close>: a Republic-of-China date \<open>yyy/m/d\<close> becomes the local midnight of
  the Gregorian day; \<open>None\<close> is the \<open>null\<close> it returns. Nothing in its \<open>try\<close> block
  throws.
\<close>

definition parseRocDate :: "int \<Rightarrow> jstring \<Rightarrow> jsdate option" where
  "parseRocDate tza dateStr =
     (if dateStr = [] then None
      else (case splitOn (\<lambda>c. c = 47) dateStr of
              [p0, p1, p2] \<Rightarrow>
                Some (newDateLocal tza
                        (map_option (\<lambda>y. y + 1911) (parseInt p0))
                        (map_option (\<lambda>m. m - 1) (parseInt p1))
                        (parseInt p2))
            | _ \<Rightarrow> None))"

section \<open>The normalizer (services/processor.js)\<close>

definition nian :: nat where "nian = 0x5E74"
definition yue :: nat where "yue = 0x6708"
definition ri :: nat where "ri = 0x65E5"

definition isDateMark :: "nat \<Rightarrow> bool" where
  "isDateMark c = (c = nian \<or> c = yue \<or> c = ri)"

text \<open>\<open>dateStr.replace(/[^0-9/\-\.\<dots>]/g, '')\<close>, the class holding the three marks too.\<close>

definition cleanDateStr :: "jstring \<Rightarrow> jstring" where
  "cleanDateStr s = filter (\<lambda>c. isDigit c \<or> c = 47 \<or> c = 45 \<or> c = 46 \<or> isDateMark c) s"

text \<open>Lines 198 to 204: an invalid date gives \<open>null\<close>, a valid one its ISO day.\<close>

definition dateResult :: "jsdate \<Rightarrow> jstring option" where
  "dateResult d = (case d of InvalidDate \<Rightarrow> None | DateMs t \<Rightarrow> Some (isoDate t))"

text \<open>
  The \<open>try\<close> block of \<open>parseDate\<close>. With a date mark and fewer than three parts \<open>date\<close>
  stays undefined and \<open>date.getTime()\<close> raises a TypeError.
\<close>

definition parseDateTry :: "host \<Rightarrow> jstring \<Rightarrow> exn + jstring option" where
  "parseDateTry h dateStr =
     (let clean = cleanDateStr dateStr
      in if list_ex isDateMark clean
         then (case filter (\<lambda>p. p \<noteq> []) (splitOn isDateMark clean) of
                 p0 # p1 # p2 # _ \<Rightarrow>
                   Inr (dateResult
                          (newDateLocal (localTZA h) (toIntegerOfString p0)
                             (map_option (\<lambda>m. m - 1) (parseInt p1)) (toIntegerOfString p2)))
               | _ \<Rightarrow> Inl (TypeError []))
         else Inr (dateResult (dateParse h clean)))"

definition parseDate :: "host \<Rightarrow> jstring option \<Rightarrow> jstring option" where
  "parseDate h dateStr =
     (case dateStr of
        None \<Rightarrow> None
      | Some s \<Rightarrow>
          if s = [] then None
          else (case parseDateTry h s of Inl e \<Rightarrow> None | Inr r \<Rightarrow> r))"

definition genderMale :: "jstring list" where
  "genderMale = [asc ''male'', asc ''m'', [0x7537], [0x7537, 0x6027], [0x5148, 0x751F],
                 [0x7537, 0x5B50]]"

definition genderFemale :: "jstring list" where
  "genderFemale = [asc ''female'', asc ''f'', [0x5973], [0x5973, 0x6027], [0x5C0F, 0x59D0],
                   [0x5973, 0x58EB], [0x5973, 0x5B50]]"

definition normalizeGender :: "jstring option \<Rightarrow> jstring option" where
  "normalizeGender genderStr =
     (if falsy genderStr then None
      else (let lowerGender = trim (toLowerCase (valueOr [] genderStr))
            in if lowerGender \<in> set genderMale then Some (asc ''male'')
               else if lowerGender \<in> set genderFemale then Some (asc ''female'')
               else None))"

text \<open>The first key that is present with a value other than null and undefined.\<close>

fun getValueFromMultipleKeys :: "jsobject \<Rightarrow> jstring list \<Rightarrow> jstring option" where
  "getValueFromMultipleKeys data [] = None"
| "getValueFromMultipleKeys data (key # keys) =
     (case map_of data key of
        Some (JStr s) \<Rightarrow> Some s
      | _ \<Rightarrow> getValueFromMultipleKeys data keys)"

definition nameKeys :: "jstring list" where
  "nameKeys = [asc ''name'', [0x59D3, 0x540D], asc ''fullName'']"

definition idNumberKeys :: "jstring list" where
  "idNumberKeys = [asc ''idNumber'', [0x8EAB, 0x5206, 0x8B49, 0x5B57, 0x865F], asc ''id'',
                   asc ''ID'']"

definition licensePlateKeys :: "jstring list" where
  "licensePlateKeys = [asc ''licensePlate'', [0x8ECA, 0x724C, 0x865F, 0x78BC], [0x8ECA, 0x865F],
                       asc ''plateNumber'', asc ''vehicleNumber'']"

definition violationDateKeys :: "jstring list" where
  "violationDateKeys = [asc ''violationDate'', [0x9055, 0x898F, 0x65E5, 0x671F],
                        [0x65E5, 0x671F], asc ''date'']"

definition caseNumberKeys :: "jstring list" where
  "caseNumberKeys = [asc ''caseNumber'', [0x88C1, 0x6C7A, 0x5B57, 0x865F], [0x6848, 0x865F],
                     asc ''caseId'']"

definition genderKeys :: "jstring list" where
  "genderKeys = [asc ''gender'', [0x6027, 0x5225], asc ''sex'']"

text \<open>\<open>s.replace(/\s+/g, ' ')\<close>: every run of white space becomes one space.\<close>

fun collapseSpaces :: "bool \<Rightarrow> jstring \<Rightarrow> jstring" where
  "collapseSpaces inRun [] = []"
| "collapseSpaces inRun (c # cs) =
     (if isSpace c then (if inRun then collapseSpaces True cs else 32 # collapseSpaces True cs)
      else c # collapseSpaces False cs)"

record source =
  src_name :: jstring
  src_url :: "jstring option"
  src_imageUrl :: "jstring option"
  src_crawlTime :: jstring

record normalized =
  name :: jstring
  idNumber :: "jstring option"
  licensePlate :: "jstring option"
  violationDate :: "jstring option"
  caseNumber :: "jstring option"
  gender :: "jstring option"
  sources :: "source list"
  rawData :: jstring

text \<open>The properties of an array are its indices: none of the keys looked up is present.\<close>

definition propertiesOf :: "jsdata \<Rightarrow> jsobject option" where
  "propertiesOf data =
     (case data of DObject obj \<Rightarrow> Some obj | DArray xs \<Rightarrow> Some [] | _ \<Rightarrow> None)"

text \<open>
  \<open>validateAndNormalize\<close>. The object literal of lines 114 to 128 is built first, reading
  the clock when the data carries no crawl time; the check of line 131 follows.
\<close>

definition validateAndNormalize ::
    "host \<Rightarrow> io \<Rightarrow> jsdata \<Rightarrow> jstring \<Rightarrow> normalized option \<times> io" where
  "validateAndNormalize h w data sourceName =
     (case propertiesOf data of
        None \<Rightarrow> (None, w)
      | Some obj \<Rightarrow>
          (let name0 = getValueFromMultipleKeys obj nameKeys;
               idNumber0 = getValueFromMultipleKeys obj idNumberKeys;
               licensePlate0 = getValueFromMultipleKeys obj licensePlateKeys;
               violationDate0 = parseDate h (getValueFromMultipleKeys obj violationDateKeys);
               caseNumber0 = getValueFromMultipleKeys obj caseNumberKeys;
               gender0 = normalizeGender (getValueFromMultipleKeys obj genderKeys);
               url0 = (case truthyStr (getProp obj (asc ''sourceUrl'')) of
                         Some u \<Rightarrow> Some u
                       | None \<Rightarrow> truthyStr (getProp obj (asc ''url'')));
               imageUrl0 = truthyStr (getProp obj (asc ''imageUrl''));
               (crawlTime0, w') =
                  (case truthyStr (getProp obj (asc ''crawlTime'')) of
                     Some t \<Rightarrow> (t, w)
                   | None \<Rightarrow> (let (t, w1) = newDateNow w in (toISOString t, w1)))
           in if falsy name0 \<or> (falsy idNumber0 \<and> falsy licensePlate0) then (None, w')
              else (Some \<lparr> name = collapseSpaces False (trim (valueOr [] name0)),
                           idNumber = map_option (\<lambda>s. toUpperCase (trim s)) idNumber0,
                           licensePlate = map_option (\<lambda>s. toUpperCase (trim s)) licensePlate0,
                           violationDate = violationDate0,
                           caseNumber = caseNumber0,
                           gender = gender0,
                           sources = [\<lparr> src_name = sourceName, src_url = url0,
                                        src_imageUrl = imageUrl0,
                                        src_crawlTime = crawlTime0 \<rparr>],
                           rawData = stringify h data \<rparr>, w')))"

definition isStructuredData :: "jsdata \<Rightarrow> bool" where
  "isStructuredData data =
     (case propertiesOf data of
        None \<Rightarrow> False
      | Some obj \<Rightarrow>
          (let hasName = (hasKey obj (asc ''name'') \<or> hasKey obj [0x59D3, 0x540D]
                           \<or> hasKey obj (asc ''fullName''));
               hasId = (hasKey obj (asc ''idNumber'')
                         \<or> hasKey obj [0x8EAB, 0x5206, 0x8B49, 0x5B57, 0x865F]
                         \<or> hasKey obj (asc ''id''));
               hasLicensePlate = (hasKey obj (asc ''licensePlate'')
                                   \<or> hasKey obj [0x8ECA, 0x724C, 0x865F, 0x78BC]
                                   \<or> hasKey obj (asc ''plateNumber''))
           in hasName \<and> (hasId \<or> hasLicensePlate)))"

section \<open>The AI service (services/aiService.ts)\<close>

text \<open>
  The module state set at load time (lines 26 to 41): the client exists when the
  environment carries a non-empty \<open>OPENAI_API_KEY\<close> and its constructor did not throw.
\<close>

record ai_module =
  openai :: "jstring option"
  isOpenAiAvailable :: bool

definition initAiService :: "jstring option \<Rightarrow> bool \<Rightarrow> ai_module" where
  "initAiService apiKey constructorThrows =
     (case truthyStr (case apiKey of None \<Rightarrow> JUndefined | Some k \<Rightarrow> JStr k) of
        Some k \<Rightarrow>
          if constructorThrows then \<lparr> openai = None, isOpenAiAvailable = False \<rparr>
          else \<lparr> openai = Some k, isOpenAiAvailable = True \<rparr>
      | None \<Rightarrow> \<lparr> openai = None, isOpenAiAvailable = False \<rparr>)"

definition mockName :: jstring where
  "mockName = [0x6E2C, 0x8A66, 0x59D3, 0x540D]"

definition mockLicensePlate :: jstring where
  "mockLicensePlate = [0x6E2C, 0x2D, 0x31, 0x32, 0x33, 0x34]"

text \<open>
  \<open>getMockOffenderData\<close>: the properties are evaluated in the order written, so the
  clock is read, then the random generator, then the clock again.
\<close>

definition getMockOffenderData :: "io \<Rightarrow> jsobject \<times> io" where
  "getMockOffenderData w =
     (let (t1, w1) = newDateNow w;
          (r, w2) = mathRandom w1;
          (t2, w3) = newDateNow w2
      in ([(asc ''name'', JStr mockName),
           (asc ''gender'', JStr (asc ''male'')),
           (asc ''idNumber'', JStr (asc ''A123456789'')),
           (asc ''licensePlate'', JStr mockLicensePlate),
           (asc ''violationDate'', JStr (isoDate t1)),
           (asc ''caseNumber'', JStr (asc ''TEST-'' @ numberToString \<lfloor>r * 10000\<rfloor>)),
           (asc ''sourceUrl'', JStr (asc ''https://example.com/test'')),
           (asc ''imageUrl'', JStr (asc ''https://example.com/test.jpg'')),
           (asc ''crawlTime'', JStr (toISOString t2))], w3))"

definition clientMissing :: exn where
  "clientMissing =
     Error [0x4F, 0x70, 0x65, 0x6E, 0x41, 0x49, 0x20, 0x5BA2, 0x6236, 0x7AEF, 0x5C1A, 0x672A,
            0x521D, 0x59CB, 0x5316, 0xFF0C, 0x8ACB, 0x6AA2, 0x67E5, 0x20, 0x41, 0x50, 0x49, 0x20,
            0x91D1, 0x9470, 0x8A2D, 0x5B9A]"

text \<open>
  \<open>extractTextFromImage\<close> and \<open>extractStructuredData\<close>: \<open>Inl\<close> is the exception the
  \<open>catch\<close> block logs and throws again.
\<close>

definition extractTextFromImage ::
    "host \<Rightarrow> ai_module \<Rightarrow> io \<Rightarrow> jstring \<Rightarrow> (exn + jsobject list) \<times> io" where
  "extractTextFromImage h a w imagePath =
     (if \<not> isOpenAiAvailable a then (let (m, w') = getMockOffenderData w in (Inr [m], w'))
      else if openai a = None then (Inl clientMissing, w)
      else (liveImage h imagePath, w))"

definition extractStructuredData ::
    "host \<Rightarrow> ai_module \<Rightarrow> io \<Rightarrow> jstring \<Rightarrow> (exn + jsdata) \<times> io" where
  "extractStructuredData h a w txt =
     (if \<not> isOpenAiAvailable a
      then (let (m, w') = getMockOffenderData w in (Inr (DObject m), w'))
      else if openai a = None then (Inl clientMissing, w)
      else (liveStructured h txt, w))"

text \<open>
  The interface \<open>OffenderData\<close> (lines 12 to 23): six required properties, each a string
  or null; the optional ones, when present, are strings.
\<close>

definition stringOrNull :: "jsobject \<Rightarrow> jstring \<Rightarrow> bool" where
  "stringOrNull obj k = (case map_of obj k of Some (JStr s) \<Rightarrow> True | Some JNull \<Rightarrow> True | _ \<Rightarrow> False)"

definition optionalString :: "jsobject \<Rightarrow> jstring \<Rightarrow> bool" where
  "optionalString obj k =
     (case map_of obj k of Some (JStr s) \<Rightarrow> True | Some JUndefined \<Rightarrow> True | None \<Rightarrow> True
      | _ \<Rightarrow> False)"

definition isOffenderData :: "jsobject \<Rightarrow> bool" where
  "isOffenderData obj =
     (list_all (stringOrNull obj)
        [asc ''name'', asc ''gender'', asc ''idNumber'', asc ''licensePlate'',
         asc ''violationDate'', asc ''caseNumber'']
      \<and> list_all (optionalString obj) [asc ''sourceUrl'', asc ''imageUrl'', asc ''crawlTime''])"

section \<open>The AI service the processor imports (services/aiService.js)\<close>

text \<open>
  \<open>processor.js\<close> (line 7) imports \<open>extractStructuredData\<close> from \<open>./aiService.js\<close>. The
  state of that module is its client (lines 12 to 20), null when the constructor threw.
  The module has no simulation mode: without a client the operation throws (lines 139 to
  141). The request to the backend, the reading of its answer and the unwrapping of a
  one-element array (lines 143 to 176) are the parameter \<open>js_complete\<close>: the value
  returned, or the exception the \<open>catch\<close> block throws again.
\<close>

record ai_client =
  js_client :: "jstring option"
  js_complete :: "jstring \<Rightarrow> exn + jsdata"

definition extractStructuredDataJs :: "ai_client \<Rightarrow> jstring \<Rightarrow> exn + jsdata" where
  "extractStructuredDataJs a txt =
     (case js_client a of None \<Rightarrow> Inl clientMissing | Some k \<Rightarrow> js_complete a txt)"

section \<open>The records of the image crawler (crawler/strategies/imageCrawler.ts)\<close>

text \<open>
  Lines 90 to 98: every record that \<open>extractTextFromImage\<close> of \<open>aiService.ts\<close> returns is
  copied, with the address of the page, the address of the image and the time of the
  crawl written over its \<open>sourceUrl\<close>, \<open>imageUrl\<close> and \<open>crawlTime\<close>. The copies are the
  raw data that \<open>runCrawlers\<close> hands to \<open>processDmvData\<close>.
\<close>

definition typedRecord :: "jstring \<Rightarrow> jstring \<Rightarrow> io \<Rightarrow> jsobject \<Rightarrow> jsobject \<times> io" where
  "typedRecord url imgUrl w rec =
     (let (t, w') = newDateNow w
      in (setProp (setProp (setProp rec (asc ''sourceUrl'') (JStr url))
                     (asc ''imageUrl'') (JStr imgUrl))
            (asc ''crawlTime'') (JStr (toISOString t)), w'))"

section \<open>The reconciler (processDmvData in services/processor.js)\<close>

text \<open>
  Lines 40 to 44: the filter handed to \<open>OffenderRecord.findOne\<close>. It names the three
  identifier fields, each with the value the validated record has for it (null when it
  has none), and no other field.
\<close>

record lookup_filter =
  f_idNumber :: "jstring option"
  f_licensePlate :: "jstring option"
  f_caseNumber :: "jstring option"

definition matchFilter :: "normalized \<Rightarrow> lookup_filter" where
  "matchFilter v =
     \<lparr> f_idNumber = idNumber v, f_licensePlate = licensePlate v, f_caseNumber = caseNumber v \<rparr>"

text \<open>
  Lines 50 to 53: the update document handed to \<open>OffenderRecord.updateOne\<close>. Under
  \<open>$set\<close> it spreads the validated record, so all eight properties with their incoming
  values; under \<open>$addToSet\<close> it names \<open>sources[0]\<close> of the validated record (undefined
  when the array is empty).
\<close>

record update_doc =
  u_set :: normalized
  u_addToSet :: "source option"

definition updateOf :: "normalized \<Rightarrow> update_doc" where
  "updateOf v =
     \<lparr> u_set = \<lparr> name = name v, idNumber = idNumber v, licensePlate = licensePlate v,
                 violationDate = violationDate v, caseNumber = caseNumber v,
                 gender = gender v, sources = sources v, rawData = rawData v \<rparr>,
       u_addToSet = (case sources v of [] \<Rightarrow> None | s # rest \<Rightarrow> Some s) \<rparr>"

text \<open>A document as \<open>findOne\<close> returns it; the loop reads its \<open>_id\<close> and nothing else.\<close>

record doc =
  oid :: nat
  body :: normalized

text \<open>
  The object imported from \<open>../models/offenderRecord.js\<close> (line 8), as far as the loop
  uses it, over a store of any type: \<open>findOne\<close> with a filter returns a document or
  null, or throws; \<open>updateOne\<close> with an \<open>_id\<close> and an update document, and \<open>save\<close> on a
  new object built from a record, leave a store behind and may throw. What the three calls
  do is not written in \<open>processor.js\<close>: it belongs to the object imported, so it is a
  parameter here.
\<close>

record 's offender_model =
  findOne :: "'s \<Rightarrow> lookup_filter \<Rightarrow> exn + doc option"
  updateOne :: "'s \<Rightarrow> nat \<Rightarrow> update_doc \<Rightarrow> exn option \<times> 's"
  save :: "'s \<Rightarrow> normalized \<Rightarrow> exn option \<times> 's"

text \<open>
  The object of that name in the sources, to which the import resolves:
  \<open>models/offenderRecord.ts\<close> (line 359) exports the class \<open>OffenderRecordModel\<close> as
  \<open>OffenderRecord\<close>. Its static methods are
  \<open>findById\<close>, \<open>findAll\<close>, \<open>count\<close>, \<open>find\<close>, \<open>create\<close>, \<open>update\<close>, \<open>delete\<close>,
  \<open>addSource\<close> and \<open>getSources\<close>, and it declares no instance method. So
  \<open>OffenderRecord.findOne\<close> and \<open>OffenderRecord.updateOne\<close> are undefined, as is \<open>save\<close>
  on an instance: calling any of them throws a \<open>TypeError\<close> and leaves the database
  untouched. The message of the error is worded by the engine and is only logged; it is
  left empty.
\<close>

definition sqlOffenderRecord :: "'s offender_model" where
  "sqlOffenderRecord =
     \<lparr> findOne = (\<lambda>st f. Inl (TypeError [])),
       updateOne = (\<lambda>st i u. (Some (TypeError []), st)),
       save = (\<lambda>st v. (Some (TypeError []), st)) \<rparr>"

datatype outcome = Created | Updated nat

text \<open>
  Lines 38 to 61 for one validated record: the lookup, then \<open>updateOne\<close> on the document
  found or \<open>save\<close> of a new one. \<open>Inl\<close> is the exception that leaves the \<open>try\<close> block.
\<close>

definition reconcile :: "'s offender_model \<Rightarrow> 's \<Rightarrow> normalized \<Rightarrow> (exn + outcome) \<times> 's" where
  "reconcile M st v =
     (case findOne M st (matchFilter v) of
        Inl e \<Rightarrow> (Inl e, st)
      | Inr (Some existingRecord) \<Rightarrow>
          (case updateOne M st (oid existingRecord) (updateOf v) of
             (Some e, st') \<Rightarrow> (Inl e, st')
           | (None, st') \<Rightarrow> (Inr (Updated (oid existingRecord)), st'))
      | Inr None \<Rightarrow>
          (case save M st v of
             (Some e, st') \<Rightarrow> (Inl e, st')
           | (None, st') \<Rightarrow> (Inr Created, st')))"

record 's run =
  world :: io
  store :: 's
  successCount :: nat
  failCount :: nat

text \<open>
  The body of the loop, lines 25 to 70. An exception thrown anywhere in it is caught at
  line 67 and counts the item as failed, as does a record the normalizer refuses.
\<close>

definition processItem ::
    "'s offender_model \<Rightarrow> host \<Rightarrow> ai_client \<Rightarrow> jstring \<Rightarrow> 's run \<Rightarrow> jsdata \<Rightarrow> 's run" where
  "processItem M h a sourceName r data =
     (let structured =
            (case data of
               DString s \<Rightarrow> extractStructuredDataJs a s
             | _ \<Rightarrow>
                 if isStructuredData data then Inr data
                 else extractStructuredDataJs a (stringify h data))
      in case structured of
           Inl e \<Rightarrow> r\<lparr> failCount := Suc (failCount r) \<rparr>
         | Inr structuredData \<Rightarrow>
             (let (validatedData, w2) = validateAndNormalize h (world r) structuredData sourceName
              in case validatedData of
                   None \<Rightarrow> r\<lparr> world := w2, failCount := Suc (failCount r) \<rparr>
                 | Some v \<Rightarrow>
                     (case reconcile M (store r) v of
                        (Inr out, st') \<Rightarrow>
                          r\<lparr> world := w2, store := st', successCount := Suc (successCount r) \<rparr>
                      | (Inl e, st') \<Rightarrow>
                          r\<lparr> world := w2, store := st', failCount := Suc (failCount r) \<rparr>)))"

definition processDmvData ::
    "'s offender_model \<Rightarrow> host \<Rightarrow> ai_client \<Rightarrow> io \<Rightarrow> 's \<Rightarrow> jsdata list \<Rightarrow> jstring \<Rightarrow> 's run" where
  "processDmvData M h a w st rawItems sourceName =
     foldl (processItem M h a sourceName)
       \<lparr> world = w, store = st, successCount = 0, failCount = 0 \<rparr> rawItems"

section \<open>The HTML-table crawler (crawler/strategies/tableCrawler.ts)\<close>

text \<open>
  A table as the selectors of the crawler see it: the text of the whole table, the texts
  of the cells selected by \<open>tr:first-child th, tr:first-child td\<close>, and for every row
  selected by \<open>tr:not(:first-child)\<close> the texts of its \<open>td\<close> cells.
\<close>

record html_table =
  tableText :: jstring
  firstRowCells :: "jstring list"
  otherRows :: "jstring list list"

definition keywordInTable :: "html_table \<Rightarrow> bool" where
  "keywordInTable t =
     (let txt = toLowerCase (tableText t)
      in str_includes txt [0x9152, 0x99D5] \<or> str_includes txt [0x7D2F, 0x72AF]
         \<or> str_includes txt [0x99D5, 0x99DB, 0x4EBA])"

definition hasRequiredColumns :: "html_table \<Rightarrow> bool" where
  "hasRequiredColumns t =
     (let headers = map (\<lambda>cell. toLowerCase (trim cell)) (firstRowCells t)
      in list_ex (\<lambda>h. str_includes h [0x59D3, 0x540D]) headers
         \<and> (list_ex (\<lambda>h. str_includes h [0x8EAB, 0x5206, 0x8B49]) headers
              \<or> list_ex (\<lambda>h. str_includes h [0x8ECA, 0x865F]) headers))"

definition checkIfTargetTable :: "html_table \<Rightarrow> bool" where
  "checkIfTargetTable t = (keywordInTable t \<and> hasRequiredColumns t)"

definition isValidRecord :: "(jstring \<times> jstring) list \<Rightarrow> bool" where
  "isValidRecord rowData =
     (let fields = map (\<lambda>kv. toLowerCase (fst kv)) rowData;
          hasName = list_ex (\<lambda>f. str_includes f [0x59D3, 0x540D]
                                 \<or> str_includes f [0x99D5, 0x99DB, 0x4EBA]
                                 \<or> str_includes f (asc ''name'')) fields;
          hasIdentifier = list_ex (\<lambda>f. str_includes f [0x8EAB, 0x5206, 0x8B49]
                                       \<or> str_includes f [0x8B49, 0x865F]
                                       \<or> str_includes f [0x8ECA, 0x865F]
                                       \<or> str_includes f [0x8ECA, 0x724C]
                                       \<or> str_includes f (asc ''id'')
                                       \<or> str_includes f (asc ''license'')) fields
      in hasName \<and> hasIdentifier \<and> list_ex (\<lambda>kv. length (snd kv) > 0) rowData)"

text \<open>Lines 59 to 65: the cells of a row under the headers of their columns.\<close>

definition rowDataOf :: "jstring list \<Rightarrow> jstring list \<Rightarrow> (jstring \<times> jstring) list" where
  "rowDataOf headers cells =
     foldl (\<lambda>rowData (h, cell). if h \<noteq> [] then setProp rowData h (trim cell) else rowData)
       [] (zip headers cells)"

text \<open>Lines 58 to 73 for one row: a valid row is stamped with URL and clock and kept.\<close>

definition crawlRow ::
    "jstring \<Rightarrow> jstring list \<Rightarrow> jsobject list \<times> io \<Rightarrow> jstring list \<Rightarrow> jsobject list \<times> io" where
  "crawlRow url headers acc cells =
     (let (results, w) = acc; rowData = rowDataOf headers cells
      in if isValidRecord rowData
         then (let (t, w') = newDateNow w;
                   stamped = setProp (setProp (map (\<lambda>(k, v). (k, JStr v)) rowData)
                                        (asc ''sourceUrl'') (JStr url))
                               (asc ''crawlTime'') (JStr (toISOString t))
               in (results @ [stamped], w'))
         else (results, w))"

text \<open>Lines 43 to 77 for one table.\<close>

definition crawlTable :: "jstring \<Rightarrow> jsobject list \<times> io \<Rightarrow> html_table \<Rightarrow> jsobject list \<times> io" where
  "crawlTable url acc t =
     (if checkIfTargetTable t
      then foldl (crawlRow url (map trim (firstRowCells t))) acc (otherRows t)
      else acc)"

definition crawlFailed :: jstring where
  "crawlFailed = [0x8868, 0x683C, 0x722C, 0x87F2, 0x57F7, 0x884C, 0x5931, 0x6557, 0x3A, 0x20]"

definition errMessage :: "exn \<Rightarrow> jstring" where
  "errMessage e = (case e of Error m \<Rightarrow> m | TypeError m \<Rightarrow> m)"

text \<open>
  \<open>tableCrawler\<close>. \<open>page\<close> is what the request and \<open>cheerio.load\<close> deliver for the URL:
  the tables of the document, or the exception of a failed request.
\<close>

definition tableCrawler ::
    "(jstring \<Rightarrow> exn + html_table list) \<Rightarrow> io \<Rightarrow> jstring \<Rightarrow> (exn + jsobject list) \<times> io" where
  "tableCrawler page w url =
     (case page url of
        Inl e \<Rightarrow> (Inl (Error (crawlFailed @ errMessage e)), w)
      | Inr tables \<Rightarrow> (let (results, w') = foldl (crawlTable url) ([], w) tables
                        in (Inr results, w')))"

section \<open>Sample hosts and inputs\<close>

text \<open>
  What V8 and JavaScriptCore make of three runs of digits separated by \<open>/\<close>: the year
  comes first when the first number is no day of a month, month/day/year otherwise; a year
  from 0 to 49 counts from 2000 and one from 50 to 99 from 1900; the date is local midnight.
  Strings of another shape, ISO dates among them, are left invalid in this sample.
\<close>

definition slashDateParse :: "int \<Rightarrow> jstring \<Rightarrow> jsdate" where
  "slashDateParse tza s =
     (case splitOn (\<lambda>c. c = 47) s of
        [a, b, c] \<Rightarrow>
          if list_all (\<lambda>p. p \<noteq> [] \<and> list_all isDigit p) [a, b, c]
          then (let n0 = int (digitsValue a); n1 = int (digitsValue b); n2 = int (digitsValue c);
                    (y, m, d) = (if 1 \<le> n0 \<and> n0 \<le> 31 then (n2, n0, n1) else (n0, n1, n2));
                    year = (if 0 \<le> y \<and> y \<le> 49 then y + 2000
                            else if 50 \<le> y \<and> y \<le> 99 then y + 1900 else y)
                in if 1 \<le> m \<and> m \<le> 12 \<and> 1 \<le> d \<and> d \<le> 31
                   then timeClip (makeDay year (m - 1) d * msPerDay - tza)
                   else InvalidDate)
          else InvalidDate
      | _ \<Rightarrow> InvalidDate)"

text \<open>A host in the UTC zone whose backend branches fail, and one in Taipei (UTC+8).\<close>

definition utcHost :: host where
  "utcHost = \<lparr> dateParse = slashDateParse 0, localTZA = 0, stringify = (\<lambda>d. asc ''{}''),
               liveStructured = (\<lambda>t. Inl (Error [])), liveImage = (\<lambda>p. Inl (Error [])) \<rparr>"

definition taipeiHost :: host where
  "taipeiHost = utcHost\<lparr> dateParse := slashDateParse 28800000, localTZA := 28800000 \<rparr>"

text \<open>A world whose clock stands at the epoch; the random generator gives 0, later 1/2.\<close>

definition sampleIo :: io where
  "sampleIo = \<lparr> ticks = 0, clock = (\<lambda>n. 0), random = (\<lambda>n. if n < 3 then 0 else 1 / 2) \<rparr>"

text \<open>The module state without a credential, and with one.\<close>

definition simulationAi :: ai_module where
  "simulationAi = initAiService None False"


text \<open>
  A stand-in for the model that answers every lookup with a given document (or null) and
  keeps, in the order made, the write calls it receives.
\<close>

datatype call = UpdateOne nat update_doc | Save normalized

definition recorder :: "doc option \<Rightarrow> call list offender_model" where
  "recorder answer =
     \<lparr> findOne = (\<lambda>calls f. Inr answer),
       updateOne = (\<lambda>calls i u. (None, calls @ [UpdateOne i u])),
       save = (\<lambda>calls v. (None, calls @ [Save v])) \<rparr>"

definition wangXiaoming :: jstring where
  "wangXiaoming = [0x738B, 0x5C0F, 0x660E]"

definition sampleSource :: source where
  "sampleSource = \<lparr> src_name = asc ''dmv'', src_url = None, src_imageUrl = None,
                    src_crawlTime = asc ''2025-07-09T00:00:00.000Z'' \<rparr>"

text \<open>The two observations of the first-writer-wins example.\<close>

definition firstObservation :: normalized where
  "firstObservation =
     \<lparr> name = wangXiaoming, idNumber = None, licensePlate = Some (asc ''ABC-1''),
       violationDate = None, caseNumber = None, gender = None, sources = [sampleSource],
       rawData = asc ''{}'' \<rparr>"

definition laterObservation :: normalized where
  "laterObservation = firstObservation\<lparr> idNumber := Some (asc ''A123'') \<rparr>"

text \<open>A record under another name with the identifiers of the first observation.\<close>

definition otherPerson :: normalized where
  "otherPerson = firstObservation\<lparr> name := asc ''Someone Else'' \<rparr>"

text \<open>The later observation again, under another licence plate.\<close>

definition newPlateObservation :: normalized where
  "newPlateObservation = laterObservation\<lparr> licensePlate := Some (asc ''XYZ-9'') \<rparr>"

text \<open>The first observation as a document of the store, under \<open>_id\<close> 7.\<close>

definition storedFirst :: doc where
  "storedFirst = \<lparr> oid = 7, body = firstObservation \<rparr>"

text \<open>A raw record whose only identifier is a case number.\<close>

definition caseOnlyRecord :: jsobject where
  "caseOnlyRecord = [(asc ''name'', JStr wangXiaoming), (asc ''caseNumber'', JStr (asc ''C-1''))]"

definition plateRecord :: jsobject where
  "plateRecord = [(asc ''name'', JStr wangXiaoming), (asc ''licensePlate'', JStr (asc ''abc-1''))]"

text \<open>A page with one table that names no offender list.\<close>

definition timetable :: html_table where
  "timetable = \<lparr> tableText = asc ''Office hours Mon 9-17'',
                  firstRowCells = [asc ''Office hours''],
                  otherRows = [[asc ''Mon 9-17'']] \<rparr>"

definition samplePage :: "jstring \<Rightarrow> exn + html_table list" where
  "samplePage url = Inr [timetable]"

text \<open>
  A table that lists offenders: a keyword in its text, a name column and a plate column,
  and one row.
\<close>

definition offenderTable :: html_table where
  "offenderTable =
     \<lparr> tableText = [0x9152, 0x99D5, 0x7D2F, 0x72AF, 0x540D, 0x55AE, 0x20, 0x59D3, 0x540D, 0x20,
                    0x8ECA, 0x865F, 0x20, 0x738B, 0x5C0F, 0x660E, 0x20] @ asc ''ABC-1'',
       firstRowCells = [[0x20, 0x59D3, 0x540D], [0x8ECA, 0x865F]],
       otherRows = [[[0x738B, 0x5C0F, 0x660E], asc ''ABC-1 '']] \<rparr>"

text \<open>
  The scenario of the specification: a line that opens with sequence number 1 and carries
  name, date, statute and place, followed by a line describing the offence.
\<close>

definition scenarioLine1 :: jstring where
  "scenarioLine1 =
     [0x31, 0x20, 0x77F3, 0x7389, 0x5C71, 0x20, 0x31, 0x31, 0x31, 0x2F, 0x37, 0x2F, 0x31, 0x31,
      0x20, 0x7B2C, 0x33, 0x35, 0x689D, 0x7B2C, 0x33, 0x9805, 0x20, 0x6C99, 0x9E7F, 0x5340,
      0x4E2D, 0x6E05, 0x8DEF, 0x516D, 0x6BB5, 0x34, 0x38, 0x39, 0x865F]"

definition scenarioLine2 :: jstring where
  "scenarioLine2 =
     [0x6C7D, 0x6A5F, 0x8ECA, 0x99D5, 0x99DB, 0x4EBA, 0x99D5, 0x99DB, 0x6C7D, 0x6A5F, 0x8ECA,
      0xFF0C, 0x65BC, 0x5341, 0x5E74, 0x5167, 0x9152, 0x7CBE, 0x6FC3, 0x5EA6, 0x8D85, 0x904E,
      0x898F, 0x5B9A, 0x6A19, 0x6E96, 0x7B2C, 0x32, 0x6B21, 0x28, 0x7121, 0x7167, 0x29]"

definition scenarioText :: jstring where
  "scenarioText = scenarioLine1 @ [10] @ scenarioLine2"

text \<open>The name, statute, place and description fragments the scenario expects.\<close>

definition scenarioName :: jstring where
  "scenarioName = [0x77F3, 0x7389, 0x5C71]"

definition scenarioStatute :: jstring where
  "scenarioStatute = [0x7B2C, 0x33, 0x35, 0x689D, 0x7B2C, 0x33, 0x9805]"

definition scenarioPlace :: jstring where
  "scenarioPlace =
     [0x6C99, 0x9E7F, 0x5340, 0x4E2D, 0x6E05, 0x8DEF, 0x516D, 0x6BB5, 0x34, 0x38, 0x39, 0x865F]"

definition scenarioFact :: jstring where
  "scenarioFact =
     [0x9152, 0x7CBE, 0x6FC3, 0x5EA6, 0x8D85, 0x904E, 0x898F, 0x5B9A, 0x6A19, 0x6E96, 0x7B2C,
      0x32, 0x6B21]"

section \<open>Properties of the PDF parser\<close>

lemmas js_string_defs =
  asc_def isSpace_def isDigit_def trim_def trimStart_def trimEnd_def

lemma parse_scenario:
  "parseOffenderData scenarioText =
     [\<lparr> off_id = 1, off_name = scenarioName, off_violationDate = asc ''111/7/11'',
        off_violationArticle = [], off_violationLocation = [],
        off_violationDescription = scenarioLine2, off_hasPhoto = False \<rparr>]"
  by (simp add: parseOffenderData_def scenarioText_def scenarioLine1_def scenarioLine2_def
      scenarioName_def js_string_defs newRecordMatch_def startOffender_def classifyLine_def
      nameMatch_def dateAt_def fits_def digitsValue_def zhaopian_def xiangpian_def jiu_def
      jiujing_def jiashi_def Let_def)

lemma scenario_fact_in_line2: "str_includes scenarioLine2 scenarioFact"
  by (simp add: scenarioLine2_def scenarioFact_def)

text \<open>
  C6, as the code has it. The scenario yields exactly one record, with sequence number 1,
  the name and the raw date of the first line, and the second line as its description,
  which contains the expected fragment. The statute and the place stand on the line that
  opens the record, which is read for name, date and photo marker only: both fields stay
  empty.
\<close>

theorem C6_scenario_record:
  "\<exists>r. parseOffenderData scenarioText = [r]
     \<and> off_id r = 1
     \<and> off_name r = scenarioName
     \<and> off_violationDate r = asc ''111/7/11''
     \<and> off_violationArticle r = []
     \<and> off_violationLocation r = []
     \<and> str_includes (off_violationDescription r) scenarioFact"
  by (simp add: parse_scenario scenario_fact_in_line2)

text \<open>
  C6 as stated fails: the statute field of the record does not contain the statute of the
  first line, nor the location field its place.
\<close>

theorem C6_statute_place_counterexample:
  "length (parseOffenderData scenarioText) = 1
   \<and> \<not> str_includes (off_violationArticle (hd (parseOffenderData scenarioText))) scenarioStatute
   \<and> \<not> str_includes (off_violationLocation (hd (parseOffenderData scenarioText))) scenarioPlace"
  by (simp add: parse_scenario scenarioStatute_def scenarioPlace_def)

section \<open>Properties of the normalizer\<close>

lemma validate_none_iff:
  "(fst (validateAndNormalize h w data sourceName) = None) =
     (case propertiesOf data of
        None \<Rightarrow> True
      | Some obj \<Rightarrow>
          falsy (getValueFromMultipleKeys obj nameKeys)
          \<or> (falsy (getValueFromMultipleKeys obj idNumberKeys)
               \<and> falsy (getValueFromMultipleKeys obj licensePlateKeys)))"
  by (simp add: validateAndNormalize_def Let_def split: option.splits prod.splits)

lemma case_only_lookups:
  "getValueFromMultipleKeys caseOnlyRecord nameKeys = Some wangXiaoming"
  "getValueFromMultipleKeys caseOnlyRecord idNumberKeys = None"
  "getValueFromMultipleKeys caseOnlyRecord licensePlateKeys = None"
  "getValueFromMultipleKeys caseOnlyRecord caseNumberKeys = Some (asc ''C-1'')"
  by (simp_all add: caseOnlyRecord_def nameKeys_def idNumberKeys_def licensePlateKeys_def
      caseNumberKeys_def asc_def)

lemma plate_lookups:
  "getValueFromMultipleKeys plateRecord nameKeys = Some wangXiaoming"
  "getValueFromMultipleKeys plateRecord licensePlateKeys = Some (asc ''abc-1'')"
  by (simp_all add: plateRecord_def nameKeys_def licensePlateKeys_def asc_def)

text \<open>
  C4, as the code has it. For an object, \<open>validateAndNormalize\<close> returns null exactly
  when the extracted name is empty or absent, or the extracted \<open>idNumber\<close> and
  \<open>licensePlate\<close> are both empty or absent. The case number takes no part in the check.
  Data that is no object (a string, null, undefined) gives null.
\<close>

theorem C4_null_exactly_when:
  "(fst (validateAndNormalize h w (DObject obj) sourceName) = None) =
     (falsy (getValueFromMultipleKeys obj nameKeys)
      \<or> (falsy (getValueFromMultipleKeys obj idNumberKeys)
           \<and> falsy (getValueFromMultipleKeys obj licensePlateKeys)))
   \<and> fst (validateAndNormalize h w (DString s) sourceName) = None
   \<and> fst (validateAndNormalize h w DNull sourceName) = None
   \<and> fst (validateAndNormalize h w DUndefined sourceName) = None"
  by (simp add: validate_none_iff propertiesOf_def)

text \<open>A record with a name and a licence plate is kept.\<close>

theorem C4_plate_record_witness:
  "fst (validateAndNormalize utcHost sampleIo (DObject plateRecord) (asc ''dmv'')) \<noteq> None"
  using C4_null_exactly_when [of utcHost sampleIo plateRecord "asc ''dmv''" "[]"]
  by (simp add: plate_lookups falsy_def wangXiaoming_def asc_def)

text \<open>
  C4 as stated fails: a record with a non-empty name whose only identifier is a case
  number is rejected.
\<close>

theorem C4_case_number_only_counterexample:
  "getValueFromMultipleKeys caseOnlyRecord nameKeys = Some wangXiaoming
   \<and> wangXiaoming \<noteq> []
   \<and> getValueFromMultipleKeys caseOnlyRecord caseNumberKeys = Some (asc ''C-1'')
   \<and> fst (validateAndNormalize utcHost sampleIo (DObject caseOnlyRecord) (asc ''dmv'')) = None"
  by (simp add: validate_none_iff propertiesOf_def case_only_lookups falsy_def wangXiaoming_def)

section \<open>Properties of the date conversions\<close>

lemma padded_2: "padded 2 n = [48 + n div 10 mod 10, 48 + n mod 10]"
  by (simp add: numeral_2_eq_2)

lemma padded_3:
  "padded 3 n = [48 + n div 10 div 10 mod 10, 48 + n div 10 mod 10, 48 + n mod 10]"
  by (simp add: numeral_3_eq_3)

lemma padded_4:
  "padded 4 n = [48 + n div 10 div 10 div 10 mod 10, 48 + n div 10 div 10 mod 10,
                 48 + n div 10 mod 10, 48 + n mod 10]"
proof -
  have "(4::nat) = Suc 3" by simp
  then have "padded 4 n = padded 3 (n div 10) @ [48 + n mod 10]"
    by (simp only: padded.simps)
  then show ?thesis by (simp add: padded_3)
qed

lemma makeDay_2022_07_11: "makeDay 2022 6 11 = 19184"
  by (simp add: makeDay_def daysFromCivil_def)

lemma civil_19184: "civilFromDays 19184 = (2022, 7, 11)"
  by code_simp

lemma makeDay_0111_07_11: "makeDay 111 6 11 = - 678795"
  by (simp add: makeDay_def daysFromCivil_def)

lemma civil_0111_07_11: "civilFromDays (- 678795) = (111, 7, 11)"
  by code_simp

lemma parseInt_samples:
  "parseInt (asc ''111'') = Some 111" "parseInt (asc ''7'') = Some 7"
  "parseInt (asc ''11'') = Some 11" "parseInt (asc ''?'') = None"
  by (simp_all add: parseInt_def parseIntDigits_def trimStart_def isSpace_def isDigit_def
      digitsValue_def asc_def)

lemma split_roc_sample:
  "splitOn (\<lambda>c. c = 47) (asc ''111/7/11'') = [asc ''111'', asc ''7'', asc ''11'']"
  by (simp add: asc_def)

lemma parseRocDate_sample:
  "parseRocDate tza (asc ''111/7/11'') = Some (timeClip (19184 * msPerDay - tza))"
proof -
  have "asc ''111/7/11'' \<noteq> []" by (simp add: asc_def)
  then show ?thesis
    by (simp add: parseRocDate_def split_roc_sample parseInt_samples newDateLocal_def
        makeDay_2022_07_11)
qed

lemma local_date_sample:
  assumes "\<bar>tza\<bar> \<le> msPerDay"
  shows "timeClip (19184 * msPerDay - tza) = DateMs (19184 * msPerDay - tza)"
    and "localDateOf tza (DateMs (19184 * msPerDay - tza)) = Some (2022, 7, 11)"
  using assms by (simp_all add: timeClip_def msPerDay_def localDateOf_def civil_19184)

lemma parseRocDate_not_three:
  "length (splitOn (\<lambda>c. c = 47) s) \<noteq> 3 \<Longrightarrow> parseRocDate tza s = None"
  by (auto simp add: parseRocDate_def split: list.splits)

lemma parseRocDate_garbage: "parseRocDate tza (asc ''?/?/?'') = Some InvalidDate"
proof -
  have "splitOn (\<lambda>c. c = 47) (asc ''?/?/?'') = [asc ''?'', asc ''?'', asc ''?'']"
    by (simp add: asc_def)
  moreover have "asc ''?/?/?'' \<noteq> []" by (simp add: asc_def)
  ultimately show ?thesis
    by (simp add: parseRocDate_def parseInt_samples newDateLocal_def)
qed

lemma parseDate_rejected:
  "\<not> list_ex isDateMark (cleanDateStr s) \<Longrightarrow> dateParse h (cleanDateStr s) = InvalidDate
   \<Longrightarrow> parseDate h (Some s) = None"
  by (simp add: parseDate_def parseDateTry_def dateResult_def Let_def)

lemma parseDate_caught: "parseDateTry h s = Inl e \<Longrightarrow> parseDate h (Some s) = None"
  by (simp add: parseDate_def)

lemma clean_question_marks: "cleanDateStr (asc ''????'') = []"
  by (simp add: cleanDateStr_def asc_def isDigit_def isDateMark_def nian_def yue_def ri_def)

lemma clean_roc_sample: "cleanDateStr (asc ''111/7/11'') = asc ''111/7/11''"
  by (simp add: cleanDateStr_def asc_def isDigit_def isDateMark_def nian_def yue_def ri_def)

lemma no_mark_roc_sample: "\<not> list_ex isDateMark (asc ''111/7/11'')"
  by (simp add: asc_def isDateMark_def nian_def yue_def ri_def)

lemma slash_roc_sample:
  "slashDateParse 0 (asc ''111/7/11'') = DateMs (- 58647888000000)"
  by (simp add: slashDateParse_def split_roc_sample) 
     (simp add: asc_def isDigit_def digitsValue_def makeDay_0111_07_11 timeClip_def msPerDay_def)

lemma iso_0111_07_11: "isoDate (- 58647888000000) = asc ''0111-07-11''"
  unfolding isoDate_def toISOString_def msPerDay_def
  by (simp add: civil_0111_07_11 isoYear_def padded_2 padded_3 padded_4 asc_def)

lemma parseDate_roc_sample:
  "parseDate utcHost (Some (asc ''111/7/11'')) = Some (asc ''0111-07-11'')"
proof -
  have "parseDateTry utcHost (asc ''111/7/11'')
          = Inr (dateResult (slashDateParse 0 (asc ''111/7/11'')))"
    by (simp add: parseDateTry_def clean_roc_sample no_mark_roc_sample utcHost_def)
  then have "parseDateTry utcHost (asc ''111/7/11'') = Inr (Some (asc ''0111-07-11''))"
    by (simp add: slash_roc_sample dateResult_def iso_0111_07_11)
  moreover have "asc ''111/7/11'' \<noteq> []" by (simp add: asc_def)
  ultimately show ?thesis by (simp add: parseDate_def)
qed

text \<open>In Taipei the local midnight falls on the day before in UTC.\<close>

lemma civil_0111_07_10: "civilFromDays (- 678796) = (111, 7, 10)"
  by code_simp

lemma parseDate_roc_sample_taipei:
  "parseDate taipeiHost (Some (asc ''111/7/11'')) = Some (asc ''0111-07-10'')"
proof -
  have "slashDateParse 28800000 (asc ''111/7/11'') = DateMs (- 58647916800000)"
    by (simp add: slashDateParse_def split_roc_sample)
       (simp add: asc_def isDigit_def digitsValue_def makeDay_0111_07_11 timeClip_def msPerDay_def)
  moreover have "isoDate (- 58647916800000) = asc ''0111-07-10''"
    unfolding isoDate_def toISOString_def msPerDay_def
    by (simp add: civil_0111_07_10 isoYear_def padded_2 padded_3 padded_4 asc_def)
  moreover have "parseDateTry taipeiHost (asc ''111/7/11'')
          = Inr (dateResult (slashDateParse 28800000 (asc ''111/7/11'')))"
    by (simp add: parseDateTry_def clean_roc_sample no_mark_roc_sample taipeiHost_def)
  moreover have "asc ''111/7/11'' \<noteq> []" by (simp add: asc_def)
  ultimately show ?thesis by (simp add: parseDate_def dateResult_def)
qed

lemma date_mark_only: "parseDateTry h [nian] = Inl (TypeError [])"
  by (simp add: parseDateTry_def cleanDateStr_def isDateMark_def)

text \<open>
  C5, as the code has it. The conversion that adds 1911 is \<open>parseRocDate\<close> of the
  import tool: in any time zone it turns \<open>111/7/11\<close> into a date whose local calendar
  day is 2022-07-11, and it returns null for \<open>????\<close> and for every string that does not
  split at \<open>/\<close> into exactly three parts. The normalizer's \<open>parseDate\<close> adds no
  offset; it returns null, and throws nothing, when the host's \<open>Date\<close> parser rejects
  the cleaned string (as it does for \<open>????\<close>, cleaned to the empty string, on a host
  that rejects the empty string) and when its own \<open>try\<close> block raises.
\<close>

theorem C5_date_parsing:
  "(\<bar>tza\<bar> \<le> msPerDay \<longrightarrow>
      (\<exists>t. parseRocDate tza (asc ''111/7/11'') = Some (DateMs t)
           \<and> localDateOf tza (DateMs t) = Some (2022, 7, 11)))
   \<and> parseRocDate tza (asc ''????'') = None
   \<and> (length (splitOn (\<lambda>c. c = 47) s1) \<noteq> 3 \<longrightarrow> parseRocDate tza s1 = None)
   \<and> (dateParse h [] = InvalidDate \<longrightarrow> parseDate h (Some (asc ''????'')) = None)
   \<and> (\<not> list_ex isDateMark (cleanDateStr s2) \<and> dateParse h (cleanDateStr s2) = InvalidDate
        \<longrightarrow> parseDate h (Some s2) = None)
   \<and> (parseDateTry h s3 = Inl e \<longrightarrow> parseDate h (Some s3) = None)"
proof -
  have "parseRocDate tza (asc ''????'') = None"
    by (rule parseRocDate_not_three) (simp add: asc_def)
  moreover have "dateParse h [] = InvalidDate \<longrightarrow> parseDate h (Some (asc ''????'')) = None"
    using parseDate_rejected [of "asc ''????''" h] by (simp add: clean_question_marks)
  ultimately show ?thesis
    using parseRocDate_sample [of tza] local_date_sample [of tza] parseRocDate_not_three
      parseDate_rejected parseDate_caught
    by auto
qed

text \<open>The hypotheses of C5 hold in the UTC zone on the sample host.\<close>

theorem C5_date_parsing_witness:
  "(\<exists>t. parseRocDate 0 (asc ''111/7/11'') = Some (DateMs t)
        \<and> localDateOf 0 (DateMs t) = Some (2022, 7, 11))
   \<and> parseRocDate 0 (asc ''2022-07-11'') = None
   \<and> parseDate utcHost (Some (asc ''????'')) = None
   \<and> parseDate utcHost (Some [nian]) = None"
proof -
  have a: "\<bar>0::int\<bar> \<le> msPerDay" by (simp add: msPerDay_def)
  have b: "length (splitOn (\<lambda>c. c = 47) (asc ''2022-07-11'')) \<noteq> 3" by (simp add: asc_def)
  have c: "dateParse utcHost [] = InvalidDate" by (simp add: utcHost_def slashDateParse_def)
  have d: "\<not> list_ex isDateMark (cleanDateStr (asc ''????''))
           \<and> dateParse utcHost (cleanDateStr (asc ''????'')) = InvalidDate"
    by (simp add: clean_question_marks c)
  have e: "parseDateTry utcHost [nian] = Inl (TypeError [])" by (rule date_mark_only)
  show ?thesis
    using C5_date_parsing [of 0 "asc ''2022-07-11''" utcHost "asc ''????''" "[nian]" "TypeError []"]
      a b c d e
    by blast
qed

text \<open>
  C5 as stated fails. On a host that reads \<open>111/7/11\<close> the way V8 and JavaScriptCore
  do, the normalizer's \<open>parseDate\<close> yields the year 111, not 2022; and \<open>parseRocDate\<close>
  returns an invalid date, not null, for the unparseable \<open>?/?/?\<close>.
\<close>

theorem C5_no_offset_counterexample:
  "parseDate utcHost (Some (asc ''111/7/11'')) = Some (asc ''0111-07-11'')
   \<and> asc ''0111-07-11'' \<noteq> asc ''2022-07-11''
   \<and> parseRocDate 0 (asc ''?/?/?'') = Some InvalidDate"
  by (simp add: parseDate_roc_sample parseRocDate_garbage) (simp add: asc_def)

section \<open>Properties of the AI service in simulation mode\<close>

lemma asc_inject: "(asc a = asc b) = (a = b)"
proof -
  have "inj (of_char :: char \<Rightarrow> nat)" by (rule injI) simp
  then show ?thesis by (simp add: asc_def inj_map_eq_map)
qed

lemma mock_eval:
  "getMockOffenderData w =
     ([(asc ''name'', JStr mockName),
       (asc ''gender'', JStr (asc ''male'')),
       (asc ''idNumber'', JStr (asc ''A123456789'')),
       (asc ''licensePlate'', JStr mockLicensePlate),
       (asc ''violationDate'', JStr (isoDate (clock w (ticks w)))),
       (asc ''caseNumber'',
          JStr (asc ''TEST-'' @ numberToString \<lfloor>random w (Suc (ticks w)) * 10000\<rfloor>)),
       (asc ''sourceUrl'', JStr (asc ''https://example.com/test'')),
       (asc ''imageUrl'', JStr (asc ''https://example.com/test.jpg'')),
       (asc ''crawlTime'', JStr (toISOString (clock w (Suc (Suc (ticks w))))))],
      w\<lparr>ticks := Suc (Suc (Suc (ticks w)))\<rparr>)"
  by (simp add: getMockOffenderData_def newDateNow_def mathRandom_def)

lemma mock_lookups:
  "getValueFromMultipleKeys (fst (getMockOffenderData w)) nameKeys = Some mockName"
  "getValueFromMultipleKeys (fst (getMockOffenderData w)) idNumberKeys = Some (asc ''A123456789'')"
  "getValueFromMultipleKeys (fst (getMockOffenderData w)) licensePlateKeys = Some mockLicensePlate"
  by (simp_all add: mock_eval nameKeys_def idNumberKeys_def licensePlateKeys_def asc_inject)

lemma mock_values_nonempty:
  "mockName \<noteq> []" "asc ''A123456789'' \<noteq> []" "mockLicensePlate \<noteq> []"
  by (simp_all add: mockName_def mockLicensePlate_def asc_def)

lemma simulation_structured:
  "\<not> isOpenAiAvailable a \<Longrightarrow>
   extractStructuredData h a w txt
     = (Inr (DObject (fst (getMockOffenderData w))), snd (getMockOffenderData w))"
  by (simp add: extractStructuredData_def split: prod.splits)

lemma simulation_image:
  "\<not> isOpenAiAvailable a \<Longrightarrow>
   extractTextFromImage h a w imagePath
     = (Inr [fst (getMockOffenderData w)], snd (getMockOffenderData w))"
  by (simp add: extractTextFromImage_def split: prod.splits)

lemma no_credential: "\<not> isOpenAiAvailable (initAiService None b)"
  "\<not> isOpenAiAvailable (initAiService (Some []) b)"
  by (simp_all add: initAiService_def truthyStr_def)

lemma mock_props:
  "getProp (fst (getMockOffenderData w)) (asc ''name'') = JStr mockName"
  "getProp (fst (getMockOffenderData w)) (asc ''gender'') = JStr (asc ''male'')"
  "getProp (fst (getMockOffenderData w)) (asc ''idNumber'') = JStr (asc ''A123456789'')"
  "getProp (fst (getMockOffenderData w)) (asc ''licensePlate'') = JStr mockLicensePlate"
  "getProp (fst (getMockOffenderData w)) (asc ''sourceUrl'') = JStr (asc ''https://example.com/test'')"
  "getProp (fst (getMockOffenderData w)) (asc ''imageUrl'') = JStr (asc ''https://example.com/test.jpg'')"
  "getProp (fst (getMockOffenderData w)) (asc ''violationDate'') = JStr (isoDate (clock w (ticks w)))"
  "getProp (fst (getMockOffenderData w)) (asc ''caseNumber'')
     = JStr (asc ''TEST-'' @ numberToString \<lfloor>random w (Suc (ticks w)) * 10000\<rfloor>)"
  "getProp (fst (getMockOffenderData w)) (asc ''crawlTime'')
     = JStr (toISOString (clock w (Suc (Suc (ticks w)))))"
  by (simp_all add: mock_eval getProp_def asc_inject)

lemma mock_same_readings:
  "clock w (ticks w) = clock w' (ticks w') \<Longrightarrow>
   random w (Suc (ticks w)) = random w' (Suc (ticks w')) \<Longrightarrow>
   clock w (Suc (Suc (ticks w))) = clock w' (Suc (Suc (ticks w'))) \<Longrightarrow>
   fst (getMockOffenderData w) = fst (getMockOffenderData w')"
  by (simp add: mock_eval)

lemma mock_is_offender_data: "isOffenderData (fst (getMockOffenderData w))"
  by (simp add: mock_eval isOffenderData_def stringOrNull_def optionalString_def asc_inject)

lemma mock_required_strings:
  "k \<in> set [asc ''name'', asc ''gender'', asc ''idNumber'', asc ''licensePlate'',
             asc ''violationDate'', asc ''caseNumber'']
   \<Longrightarrow> \<exists>s. map_of (fst (getMockOffenderData w)) k = Some (JStr s)"
  by (auto simp add: mock_eval asc_inject)

text \<open>
  C7. Without a credential both operations return without an exception: the image
  operation a list of one record, the text operation one record. The record satisfies the
  interface \<open>OffenderData\<close>, and each of its six required properties is a string, not
  null.
\<close>

theorem C7_simulation_returns_records:
  "\<not> isOpenAiAvailable a \<Longrightarrow>
   (\<exists>m. fst (extractTextFromImage h a w imagePath) = Inr [m] \<and> isOffenderData m
        \<and> (\<forall>k \<in> set [asc ''name'', asc ''gender'', asc ''idNumber'', asc ''licensePlate'',
                        asc ''violationDate'', asc ''caseNumber''].
              \<exists>s. map_of m k = Some (JStr s)))
   \<and> (\<exists>m. fst (extractStructuredData h a w txt) = Inr (DObject m) \<and> isOffenderData m
        \<and> (\<forall>k \<in> set [asc ''name'', asc ''gender'', asc ''idNumber'', asc ''licensePlate'',
                        asc ''violationDate'', asc ''caseNumber''].
              \<exists>s. map_of m k = Some (JStr s)))"
  using mock_required_strings [of _ w]
  by (simp add: simulation_structured simulation_image mock_is_offender_data)

text \<open>The module state of a run without \<open>OPENAI_API_KEY\<close> satisfies the hypothesis.\<close>

theorem C7_simulation_witness:
  "\<exists>m. fst (extractStructuredData utcHost simulationAi sampleIo (asc ''some text'')) = Inr (DObject m)
       \<and> isOffenderData m"
  using C7_simulation_returns_records [of simulationAi utcHost sampleIo "[]" "asc ''some text''"]
    no_credential(1) [of False]
  by (auto simp add: simulationAi_def)

text \<open>
  C8, as the code has it. In simulation mode the input plays no part in the result. The
  name, gender, identity number, licence plate, source URL and image URL are constants;
  the violation date and the crawl time come from the clock and the case number from the
  random generator. Two calls give equal records when they read the same clock values and
  the same random number.
\<close>

theorem C8_simulation_fields:
  "\<not> isOpenAiAvailable a \<Longrightarrow>
   extractStructuredData h a w txt1 = extractStructuredData h a w txt2
   \<and> extractTextFromImage h a w txt1 = extractTextFromImage h a w txt2
   \<and> (\<exists>m. fst (extractStructuredData h a w txt1) = Inr (DObject m)
        \<and> fst (extractTextFromImage h a w txt1) = Inr [m]
        \<and> getProp m (asc ''name'') = JStr mockName
        \<and> getProp m (asc ''gender'') = JStr (asc ''male'')
        \<and> getProp m (asc ''idNumber'') = JStr (asc ''A123456789'')
        \<and> getProp m (asc ''licensePlate'') = JStr mockLicensePlate
        \<and> getProp m (asc ''sourceUrl'') = JStr (asc ''https://example.com/test'')
        \<and> getProp m (asc ''imageUrl'') = JStr (asc ''https://example.com/test.jpg'')
        \<and> getProp m (asc ''violationDate'') = JStr (isoDate (clock w (ticks w)))
        \<and> getProp m (asc ''caseNumber'')
            = JStr (asc ''TEST-'' @ numberToString \<lfloor>random w (Suc (ticks w)) * 10000\<rfloor>)
        \<and> getProp m (asc ''crawlTime'') = JStr (toISOString (clock w (Suc (Suc (ticks w))))))
   \<and> (clock w (ticks w) = clock w' (ticks w')
        \<and> random w (Suc (ticks w)) = random w' (Suc (ticks w'))
        \<and> clock w (Suc (Suc (ticks w))) = clock w' (Suc (Suc (ticks w')))
       \<longrightarrow> fst (extractStructuredData h a w txt1) = fst (extractStructuredData h a w' txt2))"
  using mock_same_readings [of w w']
  by (simp add: simulation_structured simulation_image mock_props)

text \<open>Two calls on different inputs in worlds with the same readings agree.\<close>

theorem C8_simulation_fields_witness:
  "extractStructuredData utcHost simulationAi sampleIo (asc ''a'')
     = extractStructuredData utcHost simulationAi sampleIo (asc ''b'')
   \<and> fst (extractStructuredData utcHost simulationAi sampleIo (asc ''a''))
       = fst (extractStructuredData utcHost simulationAi (sampleIo\<lparr>ticks := 0\<rparr>) (asc ''b''))"
proof -
  have a: "\<not> isOpenAiAvailable simulationAi"
    by (simp add: simulationAi_def no_credential)
  have b: "clock sampleIo (ticks sampleIo) = clock (sampleIo\<lparr>ticks := 0\<rparr>) (ticks (sampleIo\<lparr>ticks := 0\<rparr>))
        \<and> random sampleIo (Suc (ticks sampleIo))
            = random (sampleIo\<lparr>ticks := 0\<rparr>) (Suc (ticks (sampleIo\<lparr>ticks := 0\<rparr>)))
        \<and> clock sampleIo (Suc (Suc (ticks sampleIo)))
            = clock (sampleIo\<lparr>ticks := 0\<rparr>) (Suc (Suc (ticks (sampleIo\<lparr>ticks := 0\<rparr>))))"
    by (simp add: sampleIo_def)
  show ?thesis
    using C8_simulation_fields [OF a, of utcHost sampleIo "asc ''a''" "asc ''b''" "sampleIo\<lparr>ticks := 0\<rparr>"] b
    by blast
qed

lemma decimal_samples: "decimal 0 = [48]" "decimal 5000 = [53, 48, 48, 48]"
  by (simp_all add: decimal.simps)

text \<open>
  C8 as stated fails: two successive calls with the same input, the random generator
  giving 0 and then 1/2, return records that differ (in the case number).
\<close>

theorem C8_two_calls_counterexample:
  "fst (extractStructuredData utcHost simulationAi sampleIo (asc ''same input''))
     \<noteq> fst (extractStructuredData utcHost simulationAi
              (snd (extractStructuredData utcHost simulationAi sampleIo (asc ''same input'')))
              (asc ''same input''))"
proof -
  have a: "\<not> isOpenAiAvailable simulationAi"
    by (simp add: simulationAi_def no_credential)
  have "numberToString \<lfloor>random sampleIo 1 * 10000\<rfloor> = [48]"
    by (simp add: sampleIo_def numberToString_def decimal_samples)
  moreover have "numberToString \<lfloor>random sampleIo 4 * 10000\<rfloor> = [53, 48, 48, 48]"
    by (simp add: sampleIo_def numberToString_def decimal_samples)
  ultimately show ?thesis
    by (simp add: simulation_structured [OF a] mock_eval sampleIo_def)
qed

section \<open>Simulated records in the pipeline\<close>

lemma validate_fields:
  "fst (validateAndNormalize h w (DObject obj) sourceName) = Some v \<Longrightarrow>
   name v = collapseSpaces False (trim (valueOr [] (getValueFromMultipleKeys obj nameKeys)))
   \<and> idNumber v = map_option (\<lambda>s. toUpperCase (trim s)) (getValueFromMultipleKeys obj idNumberKeys)
   \<and> licensePlate v
       = map_option (\<lambda>s. toUpperCase (trim s)) (getValueFromMultipleKeys obj licensePlateKeys)
   \<and> caseNumber v = getValueFromMultipleKeys obj caseNumberKeys
   \<and> length (sources v) = 1"
  by (auto simp add: validateAndNormalize_def propertiesOf_def Let_def
      split: option.splits prod.splits if_splits)

lemma mock_normal_forms:
  "collapseSpaces False (trim mockName) = mockName"
  "toUpperCase (trim (asc ''A123456789'')) = asc ''A123456789''"
  "toUpperCase (trim mockLicensePlate) = mockLicensePlate"
  by (simp_all add: mockName_def mockLicensePlate_def js_string_defs toUpperCase_def)

lemma mock_validates:
  "\<exists>v. fst (validateAndNormalize h w' (DObject (fst (getMockOffenderData w))) sourceName) = Some v
       \<and> name v = mockName
       \<and> idNumber v = Some (asc ''A123456789'')
       \<and> licensePlate v = Some mockLicensePlate"
proof -
  let ?m = "fst (getMockOffenderData w)"
  have "fst (validateAndNormalize h w' (DObject ?m) sourceName) \<noteq> None"
    by (simp add: validate_none_iff propertiesOf_def mock_lookups falsy_def mock_values_nonempty)
  then obtain v where v: "fst (validateAndNormalize h w' (DObject ?m) sourceName) = Some v"
    by blast
  from validate_fields [OF v] show ?thesis
    using v by (simp add: mock_lookups valueOr_def mock_normal_forms)
qed

lemma typed_mock_eval:
  "fst (typedRecord url imgUrl w' (fst (getMockOffenderData w))) =
     [(asc ''name'', JStr mockName),
      (asc ''gender'', JStr (asc ''male'')),
      (asc ''idNumber'', JStr (asc ''A123456789'')),
      (asc ''licensePlate'', JStr mockLicensePlate),
      (asc ''violationDate'', JStr (isoDate (clock w (ticks w)))),
      (asc ''caseNumber'',
         JStr (asc ''TEST-'' @ numberToString \<lfloor>random w (Suc (ticks w)) * 10000\<rfloor>)),
      (asc ''sourceUrl'', JStr url),
      (asc ''imageUrl'', JStr imgUrl),
      (asc ''crawlTime'', JStr (toISOString (clock w' (ticks w'))))]"
  by (simp add: typedRecord_def mock_eval newDateNow_def asc_inject)

lemma typed_mock_lookups:
  "getValueFromMultipleKeys (fst (typedRecord url imgUrl w' (fst (getMockOffenderData w)))) nameKeys
     = Some mockName"
  "getValueFromMultipleKeys (fst (typedRecord url imgUrl w' (fst (getMockOffenderData w)))) idNumberKeys
     = Some (asc ''A123456789'')"
  "getValueFromMultipleKeys (fst (typedRecord url imgUrl w' (fst (getMockOffenderData w))))
     licensePlateKeys = Some mockLicensePlate"
  by (simp_all add: typed_mock_eval nameKeys_def idNumberKeys_def licensePlateKeys_def asc_inject)

lemma typed_mock_structured:
  "isStructuredData (DObject (fst (typedRecord url imgUrl w' (fst (getMockOffenderData w)))))"
  by (simp add: isStructuredData_def propertiesOf_def hasKey_def typed_mock_eval asc_inject)

lemma typed_mock_validates:
  "\<exists>v. fst (validateAndNormalize h w1
              (DObject (fst (typedRecord url imgUrl w' (fst (getMockOffenderData w))))) sourceName)
          = Some v
       \<and> name v = mockName
       \<and> idNumber v = Some (asc ''A123456789'')
       \<and> licensePlate v = Some mockLicensePlate"
proof -
  let ?m = "fst (typedRecord url imgUrl w' (fst (getMockOffenderData w)))"
  have "fst (validateAndNormalize h w1 (DObject ?m) sourceName) \<noteq> None"
    by (simp add: validate_none_iff propertiesOf_def typed_mock_lookups falsy_def
        mock_values_nonempty)
  then obtain v where v: "fst (validateAndNormalize h w1 (DObject ?m) sourceName) = Some v"
    by blast
  from validate_fields [OF v] show ?thesis
    using v by (simp add: typed_mock_lookups valueOr_def mock_normal_forms)
qed

lemma reconcile_sql:
  "reconcile sqlOffenderRecord st v
     = (Inl (TypeError []), st)"
  by (simp add: reconcile_def sqlOffenderRecord_def)

lemma processItem_sql:
  "successCount (processItem sqlOffenderRecord h a sourceName r data) = successCount r
   \<and> failCount (processItem sqlOffenderRecord h a sourceName r data) = Suc (failCount r)
   \<and> store (processItem sqlOffenderRecord h a sourceName r data) = store r"
  by (simp add: processItem_def reconcile_sql Let_def
      split: sum.splits option.splits prod.splits jsdata.splits)

lemma process_sql:
  "successCount (foldl (processItem sqlOffenderRecord h a sourceName) r items) = successCount r
   \<and> failCount (foldl (processItem sqlOffenderRecord h a sourceName) r items)
       = failCount r + length items
   \<and> store (foldl (processItem sqlOffenderRecord h a sourceName) r items) = store r"
  by (induction items arbitrary: r) (simp_all add: processItem_sql)

lemma process_string_without_client:
  "processItem M h (a\<lparr>js_client := None\<rparr>) sourceName r (DString s)
     = r\<lparr> failCount := Suc (failCount r) \<rparr>"
  by (simp add: processItem_def extractStructuredDataJs_def)

text \<open>
  C10. A record that the AI service returns in simulation mode, as the image crawler hands
  it on, passes the check of the normalizer under any host and clock: its name, identity
  number and licence plate are the non-empty constants of \<open>getMockOffenderData\<close>. The
  loop takes it for structured data and brings it to the lookup of line 40. With the model
  that the sources export under the name \<open>OffenderRecord\<close> the lookup throws, the item is
  counted as failed and the store is left as it was. A raw string handed to the loop while
  \<open>aiService.js\<close> has no client fails earlier, whatever the model: no simulated record is
  made for it.
\<close>

theorem C10_simulated_record_not_persisted:
  "(\<exists>v. fst (validateAndNormalize h w1
               (DObject (fst (typedRecord url imgUrl w' (fst (getMockOffenderData w)))))
               sourceName) = Some v
        \<and> name v = mockName \<and> mockName \<noteq> []
        \<and> idNumber v = Some (asc ''A123456789'')
        \<and> licensePlate v = Some mockLicensePlate \<and> mockLicensePlate \<noteq> [])
   \<and> isStructuredData (DObject (fst (typedRecord url imgUrl w' (fst (getMockOffenderData w)))))
   \<and> successCount (processDmvData sqlOffenderRecord h a w1 st
         [DObject (fst (typedRecord url imgUrl w' (fst (getMockOffenderData w))))] sourceName) = 0
   \<and> failCount (processDmvData sqlOffenderRecord h a w1 st
         [DObject (fst (typedRecord url imgUrl w' (fst (getMockOffenderData w))))] sourceName) = 1
   \<and> store (processDmvData sqlOffenderRecord h a w1 st
         [DObject (fst (typedRecord url imgUrl w' (fst (getMockOffenderData w))))] sourceName) = st
   \<and> processDmvData M h (a\<lparr>js_client := None\<rparr>) w1 st' [DString s] sourceName
       = \<lparr> world = w1, store = st', successCount = 0, failCount = 1 \<rparr>"
  using typed_mock_validates [of h w1 url imgUrl w' w sourceName]
    process_sql [of h a sourceName "\<lparr> world = w1, store = st, successCount = 0, failCount = 0 \<rparr>"
      "[DObject (fst (typedRecord url imgUrl w' (fst (getMockOffenderData w))))]"]
  by (simp add: mock_values_nonempty typed_mock_structured processDmvData_def
      process_string_without_client)

section \<open>Properties of the HTML-table crawler\<close>

lemma crawl_no_target:
  "\<forall>t \<in> set tables. \<not> checkIfTargetTable t \<Longrightarrow> foldl (crawlTable url) acc tables = acc"
  by (induction tables arbitrary: acc) (simp_all add: crawlTable_def)

text \<open>
  C9. When the page is fetched and none of its tables has both a keyword in its text and
  the required columns in its first row, \<open>tableCrawler\<close> returns the empty list, reads
  no clock and throws nothing.
\<close>

theorem C9_no_target_table_gives_empty_list:
  "page url = Inr tables \<Longrightarrow>
   \<forall>t \<in> set tables. \<not> (keywordInTable t \<and> hasRequiredColumns t) \<Longrightarrow>
   tableCrawler page w url = (Inr [], w)"
  by (simp add: tableCrawler_def crawl_no_target checkIfTargetTable_def)

lemma timetable_no_keyword: "\<not> keywordInTable timetable"
  by (simp add: keywordInTable_def timetable_def toLowerCase_def asc_def)

text \<open>A page whose only table is a timetable.\<close>

theorem C9_no_target_table_witness:
  "tableCrawler samplePage sampleIo (asc ''https://example.org/list'') = (Inr [], sampleIo)"
proof -
  have "samplePage (asc ''https://example.org/list'') = Inr [timetable]"
    by (simp add: samplePage_def)
  moreover have "\<forall>t \<in> set [timetable]. \<not> (keywordInTable t \<and> hasRequiredColumns t)"
    by (simp add: timetable_no_keyword)
  ultimately show ?thesis
    by (rule C9_no_target_table_gives_empty_list)
qed

text \<open>
  For comparison, a page that also holds a table of offenders: its row is returned,
  stamped with the URL and the clock.
\<close>

lemma offender_table_is_target: "checkIfTargetTable offenderTable"
  by (simp add: checkIfTargetTable_def keywordInTable_def hasRequiredColumns_def
      offenderTable_def toLowerCase_def js_string_defs)

lemma offender_row_data:
  "rowDataOf (map trim (firstRowCells offenderTable)) [wangXiaoming, asc ''ABC-1 '']
     = [([0x59D3, 0x540D], wangXiaoming), ([0x8ECA, 0x865F], asc ''ABC-1'')]"
  by (simp add: rowDataOf_def offenderTable_def wangXiaoming_def js_string_defs)

lemma offender_row_valid:
  "isValidRecord [([0x59D3, 0x540D], wangXiaoming), ([0x8ECA, 0x865F], asc ''ABC-1'')]"
  by (simp add: isValidRecord_def toLowerCase_def wangXiaoming_def asc_def)

lemma civil_epoch: "civilFromDays 0 = (1970, 1, 1)"
  by code_simp

lemma iso_epoch: "toISOString 0 = asc ''1970-01-01T00:00:00.000Z''"
  unfolding toISOString_def msPerDay_def
  by (simp add: civil_epoch isoYear_def padded_2 padded_3 padded_4 asc_def)

lemma crawl_offender_table:
  "tableCrawler (\<lambda>url. Inr [timetable, offenderTable]) sampleIo (asc ''https://example.org/list'')
     = (Inr [[([0x59D3, 0x540D], JStr wangXiaoming), ([0x8ECA, 0x865F], JStr (asc ''ABC-1'')),
               (asc ''sourceUrl'', JStr (asc ''https://example.org/list'')),
               (asc ''crawlTime'', JStr (asc ''1970-01-01T00:00:00.000Z''))]],
        sampleIo\<lparr>ticks := 1\<rparr>)"
proof -
  have "otherRows offenderTable = [[wangXiaoming, asc ''ABC-1 '']]"
    by (simp add: offenderTable_def wangXiaoming_def)
  then have "crawlTable (asc ''https://example.org/list'') ([], sampleIo) offenderTable
               = ([[([0x59D3, 0x540D], JStr wangXiaoming), ([0x8ECA, 0x865F], JStr (asc ''ABC-1'')),
                    (asc ''sourceUrl'', JStr (asc ''https://example.org/list'')),
                    (asc ''crawlTime'', JStr (asc ''1970-01-01T00:00:00.000Z''))]],
                  sampleIo\<lparr>ticks := 1\<rparr>)"
    by (simp add: crawlTable_def offender_table_is_target crawlRow_def offender_row_data
        offender_row_valid newDateNow_def)
       (simp add: sampleIo_def iso_epoch asc_def)
  moreover have "\<not> checkIfTargetTable timetable"
    by (simp add: checkIfTargetTable_def timetable_no_keyword)
  ultimately show ?thesis
    by (simp add: tableCrawler_def crawlTable_def)
qed

section \<open>Properties of the reconciler\<close>

lemma matchFilter_eq:
  "(matchFilter v = matchFilter v') =
     (idNumber v = idNumber v' \<and> licensePlate v = licensePlate v' \<and> caseNumber v = caseNumber v')"
  by (simp add: matchFilter_def)

lemma matchFilter_fields:
  "f_idNumber (matchFilter v) = idNumber v"
  "f_licensePlate (matchFilter v) = licensePlate v"
  "f_caseNumber (matchFilter v) = caseNumber v"
  by (simp_all add: matchFilter_def)

lemma matchFilter_name: "matchFilter (v\<lparr>name := n\<rparr>) = matchFilter v"
  by (simp add: matchFilter_def)


lemma reconcile_throws:
  "findOne M st (matchFilter v) = Inl x \<Longrightarrow> reconcile M st v = (Inl x, st)"
  by (simp add: reconcile_def)



lemma reconcile_same_lookup:
  "findOne M st (matchFilter v) = findOne M' st (matchFilter v) \<Longrightarrow>
   updateOne M = updateOne M' \<Longrightarrow> save M = save M' \<Longrightarrow>
   reconcile M st v = reconcile M' st v"
  by (simp add: reconcile_def split: sum.splits option.splits)

lemma recorder_calls:
  "findOne (recorder answer) calls f = Inr answer"
  "updateOne (recorder answer) calls i u = (None, calls @ [UpdateOne i u])"
  "save (recorder answer) calls v = (None, calls @ [Save v])"
  by (simp_all add: recorder_def)

lemma observation_fields:
  "name firstObservation = wangXiaoming"
  "name otherPerson = asc ''Someone Else''"
  "name laterObservation = wangXiaoming"
  "name newPlateObservation = wangXiaoming"
  "idNumber firstObservation = None"
  "idNumber otherPerson = None"
  "idNumber laterObservation = Some (asc ''A123'')"
  "idNumber newPlateObservation = Some (asc ''A123'')"
  "licensePlate firstObservation = Some (asc ''ABC-1'')"
  "licensePlate otherPerson = Some (asc ''ABC-1'')"
  "licensePlate laterObservation = Some (asc ''ABC-1'')"
  "licensePlate newPlateObservation = Some (asc ''XYZ-9'')"
  "caseNumber firstObservation = None"
  "caseNumber otherPerson = None"
  "caseNumber laterObservation = None"
  "caseNumber newPlateObservation = None"
  "sources firstObservation = [sampleSource]"
  "sources otherPerson = [sampleSource]"
  "sources laterObservation = [sampleSource]"
  by (simp_all add: firstObservation_def otherPerson_def laterObservation_def
      newPlateObservation_def)

lemma names_differ: "wangXiaoming \<noteq> asc ''Someone Else''"
  by (simp add: wangXiaoming_def asc_def)

lemma plates_differ: "asc ''ABC-1'' \<noteq> asc ''XYZ-9''"
  by (simp add: asc_inject)

text \<open>
  C1, as the code has it. The lookup is one call of \<open>findOne\<close> with a filter that names
  \<open>idNumber\<close>, \<open>licensePlate\<close> and \<open>caseNumber\<close> together, each with the incoming
  record's value. The name is no part of it: changing the name changes no filter, and two
  records are looked up under the same filter exactly when they agree on the three
  identifiers. There is no second lookup: what the reconciler does depends on the model's
  \<open>findOne\<close> through its answer to this filter alone, and an exception of the lookup
  ends the reconciliation with the store as it was.
\<close>

theorem C1_lookup_filter:
  "f_idNumber (matchFilter v) = idNumber v
   \<and> f_licensePlate (matchFilter v) = licensePlate v
   \<and> f_caseNumber (matchFilter v) = caseNumber v
   \<and> matchFilter (v\<lparr>name := n\<rparr>) = matchFilter v
   \<and> ((matchFilter v = matchFilter v') =
        (idNumber v = idNumber v' \<and> licensePlate v = licensePlate v'
         \<and> caseNumber v = caseNumber v'))
   \<and> (findOne M st (matchFilter v) = findOne M' st (matchFilter v)
        \<and> updateOne M = updateOne M' \<and> save M = save M'
       \<longrightarrow> reconcile M st v = reconcile M' st v)
   \<and> (findOne M st (matchFilter v) = Inl x \<longrightarrow> reconcile M st v = (Inl x, st))"
  using matchFilter_eq [of v v'] reconcile_same_lookup [of M st v M']
    reconcile_throws [of M st v x]
  by (simp add: matchFilter_fields matchFilter_name)

text \<open>
  Two models that differ only in what \<open>findOne\<close> answers to other filters reconcile the
  first observation alike, and the lookup of the exported model throws.
\<close>

theorem C1_lookup_filter_witness:
  "reconcile (recorder None) [] firstObservation
     = reconcile ((recorder None)\<lparr> findOne := (\<lambda>calls f.
          if f = matchFilter firstObservation then Inr None else Inr (Some storedFirst)) \<rparr>)
         [] firstObservation
   \<and> reconcile sqlOffenderRecord [storedFirst] firstObservation
       = (Inl (TypeError []), [storedFirst])"
proof -
  let ?M' = "(recorder None)\<lparr> findOne := (\<lambda>calls f.
          if f = matchFilter firstObservation then Inr None else Inr (Some storedFirst)) \<rparr>"
  have a: "findOne (recorder None) [] (matchFilter firstObservation)
             = findOne ?M' [] (matchFilter firstObservation)
           \<and> updateOne (recorder None) = updateOne ?M' \<and> save (recorder None) = save ?M'"
    by (simp add: recorder_calls)
  have b: "findOne sqlOffenderRecord [storedFirst] (matchFilter firstObservation)
             = Inl (TypeError [])"
    by (simp add: sqlOffenderRecord_def)
  from a b show ?thesis
    using C1_lookup_filter [of firstObservation "[]" firstObservation "recorder None" "[]" ?M']
      C1_lookup_filter [of firstObservation "[]" firstObservation sqlOffenderRecord
        "[storedFirst]" sqlOffenderRecord "TypeError []"]
    by blast
qed

text \<open>
  C1 as stated fails. A record under another name is looked up under the very filter of
  the first observation, so the name is no part of the key. Two records with the same name
  and the same identity number are looked up under different filters when their licence
  plates differ, so the lookup is not by name and identity number; and the first
  observation, which has no identity number, is looked up with \<open>idNumber\<close> null in the
  filter rather than by name and licence plate, under a filter other than that of the later
  observation with the same name and plate.
\<close>

theorem C1_name_not_in_key_counterexample:
  "matchFilter otherPerson = matchFilter firstObservation
   \<and> name otherPerson \<noteq> name firstObservation
   \<and> name newPlateObservation = name laterObservation
   \<and> idNumber newPlateObservation = idNumber laterObservation
   \<and> idNumber laterObservation = Some (asc ''A123'')
   \<and> matchFilter newPlateObservation \<noteq> matchFilter laterObservation
   \<and> idNumber firstObservation = None
   \<and> f_idNumber (matchFilter firstObservation) = None
   \<and> name laterObservation = name firstObservation
   \<and> licensePlate laterObservation = licensePlate firstObservation
   \<and> matchFilter laterObservation \<noteq> matchFilter firstObservation"
  using names_differ plates_differ
  by (simp add: matchFilter_eq matchFilter_fields observation_fields)







end
